theory Spec2Isabelle
  imports Main "HOL-Library.Sublist"
begin

section \<open>The process and its console\<close>

text \<open>
  Both programs only talk to the console and, on Windows builds, to the socket layer.
  A run is recorded as the list of things the process did, in the order it did them:
  one \<open>Write_stdout\<close> or \<open>Write_stderr\<close> per output statement (with the bytes
  written, the newline of \<open>std::endl\<close> included), one \<open>Read_stdin\<close> per
  \<open>std::cin.get()\<close> (with the character obtained, \<open>None\<close> at end of input), and
  the two Winsock calls.
\<close>

datatype event =
    Write_stdout string
  | Write_stderr string
  | Read_stdin "char option"
  | Call_WSAStartup int
  | Call_WSACleanup

text \<open>
  The world of a process: what it has done so far, the input not yet read, and the value
  that \<open>WSAStartup(MAKEWORD(2, 2), &wsaData)\<close> returns on this machine (0 for success,
  a Winsock error code otherwise).
\<close>

record world =
  trace :: "event list"
  stdin :: string
  wsa_result :: int

text \<open>
  A C++ call either returns a value or throws a \<open>std::exception\<close>, of which only the
  text of \<open>what()\<close> is ever looked at.
\<close>

datatype 'a outcome = Returned 'a | Threw string

definition emit :: "event \<Rightarrow> world \<Rightarrow> world" where
  "emit e w = w\<lparr>trace := trace w @ [e]\<rparr>"

text \<open>\<open>std::cout << s << std::endl\<close> and \<open>std::cerr << s << std::endl\<close>. Neither
  stream has an exception mask set, so the insertions do not throw.\<close>

definition cout_endl :: "string \<Rightarrow> world \<Rightarrow> world" where
  "cout_endl s w = emit (Write_stdout (s @ [CHR 0x0A])) w"

definition cerr_endl :: "string \<Rightarrow> world \<Rightarrow> world" where
  "cerr_endl s w = emit (Write_stderr (s @ [CHR 0x0A])) w"

text \<open>\<open>std::cin.get()\<close>: takes the next character of the input if there is one, and
  reports end of input otherwise (no exception: the mask of \<open>std::cin\<close> is empty). Both
  programs discard the value.\<close>

definition cin_get :: "world \<Rightarrow> world" where
  "cin_get w =
     (case stdin w of
        [] \<Rightarrow> emit (Read_stdin None) w
      | c # cs \<Rightarrow> emit (Read_stdin (Some c)) (w\<lparr>stdin := cs\<rparr>))"

definition WSAStartup :: "world \<Rightarrow> int \<times> world" where
  "WSAStartup w = (wsa_result w, emit (Call_WSAStartup (wsa_result w)) w)"

definition WSACleanup :: "world \<Rightarrow> world" where
  "WSACleanup w = emit Call_WSACleanup w"

text \<open>\<open>std::string::substr(pos, n)\<close>: throws \<open>std::out_of_range\<close> when \<open>pos\<close> is
  beyond the end of the string, and otherwise returns at most \<open>n\<close> characters from
  \<open>pos\<close> on. The text carried by the exception is up to the standard library.\<close>

definition substr :: "nat \<Rightarrow> nat \<Rightarrow> string \<Rightarrow> string outcome" where
  "substr pos n s =
     (if length s < pos then Threw ''basic_string::substr''
      else Returned (take n (drop pos s)))"

text \<open>Sequencing of calls: an exception thrown by the first skips the rest.\<close>

definition and_then ::
  "(world \<Rightarrow> 'a outcome \<times> world) \<Rightarrow> ('a \<Rightarrow> world \<Rightarrow> 'b outcome \<times> world)
     \<Rightarrow> world \<Rightarrow> 'b outcome \<times> world" where
  "and_then m f w =
     (case m w of
        (Returned a, w') \<Rightarrow> f a w'
      | (Threw e, w') \<Rightarrow> (Threw e, w'))"


section \<open>The stub client: \<open>simple_webrtc_client_stub.cpp\<close>\<close>

text \<open>
  The class has no data members, so its methods are functions of the world alone. The
  parameter \<open>win32\<close> says whether the file is compiled with \<open>_WIN32\<close> defined.
  (\<open>WEBRTC_STUB_BUILD\<close> only chooses between declarations that the class never uses.)
\<close>

definition SimpleWebRTCClient_ctor :: "bool \<Rightarrow> world \<Rightarrow> unit outcome \<times> world" where
  "SimpleWebRTCClient_ctor win32 w =
     (let w = cout_endl ''=== WebRTC Native Client - Stub Version ==='' w;
          w = cout_endl ''This demonstrates the native WebRTC implementation'' w;
          w = cout_endl (''============================================'' @ [CHR 0x0A]) w
      in if win32 then
           (case WSAStartup w of
              (rc, w) \<Rightarrow>
                if rc \<noteq> 0 then
                  (Returned (), cerr_endl ''Failed to initialize Windows networking'' w)
                else
                  (let w = cout_endl ''Windows networking initialized'' w;
                       w = cout_endl ''WebRTC Client initialized (stub version)!'' w
                   in (Returned (), w)))
         else (Returned (), cout_endl ''WebRTC Client initialized (stub version)!'' w))"

definition SimpleWebRTCClient_dtor :: "bool \<Rightarrow> world \<Rightarrow> world" where
  "SimpleWebRTCClient_dtor win32 w = (if win32 then WSACleanup w else w)"

definition SimpleWebRTCClient_CreatePeerConnection :: "world \<Rightarrow> bool outcome \<times> world" where
  "SimpleWebRTCClient_CreatePeerConnection w =
     (let w = cout_endl ''Creating PeerConnection...'' w;
          w = cout_endl ''PeerConnection created successfully (stub)!'' w
      in (Returned True, w))"

definition SimpleWebRTCClient_AddVideoStream :: "world \<Rightarrow> bool outcome \<times> world" where
  "SimpleWebRTCClient_AddVideoStream w =
     (let w = cout_endl ''Adding video stream...'' w;
          w = cout_endl ''Video stream added successfully (stub)!'' w
      in (Returned True, w))"

definition SimpleWebRTCClient_AddAudioStream :: "world \<Rightarrow> bool outcome \<times> world" where
  "SimpleWebRTCClient_AddAudioStream w =
     (let w = cout_endl ''Adding audio stream...'' w;
          w = cout_endl ''Audio stream added successfully (stub)!'' w
      in (Returned True, w))"

definition SimpleWebRTCClient_CreateOffer :: "world \<Rightarrow> unit outcome \<times> world" where
  "SimpleWebRTCClient_CreateOffer w =
     (let w = cout_endl ''Creating offer...'' w;
          w = cout_endl ''Offer created successfully (stub)!'' w
      in (Returned (), w))"

text \<open>The one statement of \<open>HandleSignaling\<close> inserts the heading, then the value of
  \<open>message.substr(0, 50)\<close>, then the dots. Were \<open>substr\<close> to throw, the heading would
  already be written (the operands of \<open><<\<close> are evaluated from left to right).\<close>

definition SimpleWebRTCClient_HandleSignaling :: "string \<Rightarrow> world \<Rightarrow> unit outcome \<times> world" where
  "SimpleWebRTCClient_HandleSignaling message w =
     (case substr 0 50 message of
        Threw e \<Rightarrow> (Threw e, emit (Write_stdout ''Handling signaling message: '') w)
      | Returned s \<Rightarrow>
          (Returned (), cout_endl (''Handling signaling message: '' @ s @ ''...'') w))"

definition SimpleWebRTCClient_StartVideoCapture :: "world \<Rightarrow> unit outcome \<times> world" where
  "SimpleWebRTCClient_StartVideoCapture w =
     (let w = cout_endl ''Starting video capture...'' w;
          w = cout_endl ''Video capture started (stub)!'' w
      in (Returned (), w))"

definition SimpleWebRTCClient_RenderVideo :: "world \<Rightarrow> unit outcome \<times> world" where
  "SimpleWebRTCClient_RenderVideo w =
     (let w = cout_endl ''Rendering video...'' w;
          w = cout_endl ''Video rendering active (stub)!'' w
      in (Returned (), w))"

definition SimpleWebRTCClient_Run :: "world \<Rightarrow> unit outcome \<times> world" where
  "SimpleWebRTCClient_Run w =
     (let w = cout_endl ([CHR 0x0A] @ ''=== WebRTC Native Client Running ==='') w;
          w = cout_endl ''This demonstrates the structure of a native WebRTC application'' w;
          w = cout_endl (''====================================='' @ [CHR 0x0A]) w
      in and_then SimpleWebRTCClient_CreatePeerConnection (\<lambda>_.
         and_then SimpleWebRTCClient_AddVideoStream (\<lambda>_.
         and_then SimpleWebRTCClient_AddAudioStream (\<lambda>_.
         and_then SimpleWebRTCClient_StartVideoCapture (\<lambda>_.
         and_then SimpleWebRTCClient_CreateOffer (\<lambda>_.
         and_then SimpleWebRTCClient_RenderVideo (\<lambda>_ w.
           (let w = cout_endl ([CHR 0x0A] @ ''=== Native WebRTC Features Demonstrated ==='') w;
                w = cout_endl ([CHR 0xE2, CHR 0x9C, CHR 0x85] @ '' PeerConnection creation'') w;
                w = cout_endl ([CHR 0xE2, CHR 0x9C, CHR 0x85] @ '' Video stream handling'') w;
                w = cout_endl ([CHR 0xE2, CHR 0x9C, CHR 0x85] @ '' Audio stream handling'') w;
                w = cout_endl ([CHR 0xE2, CHR 0x9C, CHR 0x85] @ '' Video capture'') w;
                w = cout_endl ([CHR 0xE2, CHR 0x9C, CHR 0x85] @ '' SDP offer/answer'') w;
                w = cout_endl ([CHR 0xE2, CHR 0x9C, CHR 0x85] @ '' Video rendering'') w;
                w = cout_endl ([CHR 0xE2, CHR 0x9C, CHR 0x85] @ '' Signaling protocol'') w;
                w = cout_endl (''=========================================='' @ [CHR 0x0A]) w;
                w = cout_endl ''Press Enter to exit...'' w;
                w = cin_get w
            in (Returned (), w)))))))) w)"

text \<open>
  The \<open>try\<close> block of \<open>main\<close>: the client lives inside it, so its destructor runs
  when the block is left, also when \<open>Run\<close> throws; an exception of the constructor
  leaves no object to destroy.
\<close>

definition stub_main_try :: "bool \<Rightarrow> world \<Rightarrow> unit outcome \<times> world" where
  "stub_main_try win32 w =
     and_then (SimpleWebRTCClient_ctor win32) (\<lambda>_ w.
       (case SimpleWebRTCClient_Run w of
          (r, w) \<Rightarrow> (r, SimpleWebRTCClient_dtor win32 w))) w"

text \<open>
  What both \<open>main\<close> functions do around their \<open>try\<close> block: the handler of
  \<open>catch (const std::exception& e)\<close> reports the exception and returns 1; when the
  block ends normally \<open>main\<close> returns 0. The result is the exit code.
\<close>

definition catch_exception :: "(world \<Rightarrow> unit outcome \<times> world) \<Rightarrow> world \<Rightarrow> int \<times> world" where
  "catch_exception try_block w =
     (case try_block w of
        (Threw e, w) \<Rightarrow> (1, cerr_endl (''Error: '' @ e) w)
      | (Returned _, w) \<Rightarrow> (0, w))"

definition stub_main :: "bool \<Rightarrow> world \<Rightarrow> int \<times> world" where
  "stub_main win32 w =
     (let w = cout_endl ([CHR 0xF0, CHR 0x9F, CHR 0x8E, CHR 0xA5] @ '' WebRTC Native Video Streaming Client'') w;
          w = cout_endl ''Using WebRTC C++ Source Code (Stub Version)'' w;
          w = cout_endl (''=========================================='' @ [CHR 0x0A]) w
      in catch_exception (stub_main_try win32) w)"


section \<open>The real client: \<open>build/real_webrtc_client.cpp\<close>\<close>

text \<open>
  The macro is defined once per branch of \<open>#ifdef _WIN32\<close>; \<open>#if\<close> takes a branch
  when the macro is not 0.
\<close>

definition WEBRTC_HEADERS_AVAILABLE :: "bool \<Rightarrow> int" where
  "WEBRTC_HEADERS_AVAILABLE win32 = (if win32 then 0 else 0)"

text \<open>
  The text under \<open>#if WEBRTC_HEADERS_AVAILABLE\<close> in the six methods below calls the
  WebRTC library, which is not part of the repository. What that text would do is left
  open: it is a parameter, one behaviour per method, free to print, to fail and to throw.
  In the constructor and in the closing banner of \<open>Run\<close> both branches only print, and
  both are written out. The base class \<open>PeerConnectionObserver\<close>, its five callbacks,
  the two handle members and \<open>CreateVideoCapturer\<close> exist under the flag only; without
  it the class has no data member. The bytes of the texts are those of the source file.
\<close>

record guarded_code =
  if_InitializeWebRTC :: "world \<Rightarrow> bool outcome \<times> world"
  if_CreatePeerConnection :: "world \<Rightarrow> bool outcome \<times> world"
  if_AddVideoStream :: "world \<Rightarrow> bool outcome \<times> world"
  if_AddAudioStream :: "world \<Rightarrow> bool outcome \<times> world"
  if_CreateOffer :: "world \<Rightarrow> unit outcome \<times> world"
  if_StartVideoCapture :: "world \<Rightarrow> unit outcome \<times> world"

text \<open>Two examples of what the guarded text could do: throw at every call, and fail at
  every call after complaining.\<close>

definition throwing_code :: guarded_code where
  "throwing_code =
     \<lparr>if_InitializeWebRTC = (\<lambda>w. (Threw ''library'', w)),
      if_CreatePeerConnection = (\<lambda>w. (Threw ''library'', w)),
      if_AddVideoStream = (\<lambda>w. (Threw ''library'', w)),
      if_AddAudioStream = (\<lambda>w. (Threw ''library'', w)),
      if_CreateOffer = (\<lambda>w. (Threw ''library'', w)),
      if_StartVideoCapture = (\<lambda>w. (Threw ''library'', w))\<rparr>"

definition failing_code :: guarded_code where
  "failing_code =
     \<lparr>if_InitializeWebRTC = (\<lambda>w. (Returned False, cerr_endl ''Failed to create task queue factory'' w)),
      if_CreatePeerConnection = (\<lambda>w. (Returned False, cerr_endl ''Peer connection factory not initialized'' w)),
      if_AddVideoStream = (\<lambda>w. (Returned False, cerr_endl ''Peer connection not initialized'' w)),
      if_AddAudioStream = (\<lambda>w. (Returned False, cerr_endl ''Peer connection not initialized'' w)),
      if_CreateOffer = (\<lambda>w. (Returned (), cerr_endl ''Peer connection not initialized'' w)),
      if_StartVideoCapture = (\<lambda>w. (Returned (), cerr_endl ''Failed to create video device info'' w))\<rparr>"

definition RealWebRTCClient_ctor :: "bool \<Rightarrow> world \<Rightarrow> unit outcome \<times> world" where
  "RealWebRTCClient_ctor win32 w =
     (let w = cout_endl ''=== Real WebRTC Native Client ==='' w;
          rest = (\<lambda>w.
            let w = (if WEBRTC_HEADERS_AVAILABLE win32 \<noteq> 0 then
                       (let w = cout_endl ''Running with REAL WebRTC libraries'' w
                        in cout_endl ''Using actual WebRTC C++ source code'' w)
                     else
                       (let w = cout_endl ''Running in DEMO mode (WebRTC headers not available)'' w
                        in cout_endl ''Showing real WebRTC source code patterns'' w));
                w = cout_endl ''WebRTC Client initialized!'' w
            in (Returned (), w))
      in if win32 then
           (case WSAStartup w of
              (rc, w) \<Rightarrow>
                if rc \<noteq> 0 then
                  (Returned (), cerr_endl ''Failed to initialize Windows networking'' w)
                else rest (cout_endl ''Windows networking initialized'' w))
         else rest w)"

definition RealWebRTCClient_dtor :: "bool \<Rightarrow> world \<Rightarrow> world" where
  "RealWebRTCClient_dtor win32 w = (if win32 then WSACleanup w else w)"

definition RealWebRTCClient_InitializeWebRTC ::
  "bool \<Rightarrow> guarded_code \<Rightarrow> world \<Rightarrow> bool outcome \<times> world" where
  "RealWebRTCClient_InitializeWebRTC win32 g w =
     (let w = cout_endl ''Initializing WebRTC...'' w
      in if WEBRTC_HEADERS_AVAILABLE win32 \<noteq> 0 then if_InitializeWebRTC g w
         else
           (let w = cout_endl ''DEMO: WebRTC initialization simulated'' w;
                w = cout_endl ''  - CreateDefaultTaskQueueFactory()'' w;
                w = cout_endl ''  - CreateEnvironment()'' w;
                w = cout_endl ''  - CreateModularPeerConnectionFactory()'' w;
                w = cout_endl ''  - CreateBuiltinAudioEncoderFactory()'' w;
                w = cout_endl ''  - CreateBuiltinVideoEncoderFactory()'' w
            in (Returned True, w)))"

definition RealWebRTCClient_CreatePeerConnection ::
  "bool \<Rightarrow> guarded_code \<Rightarrow> world \<Rightarrow> bool outcome \<times> world" where
  "RealWebRTCClient_CreatePeerConnection win32 g w =
     (let w = cout_endl ''Creating PeerConnection...'' w
      in if WEBRTC_HEADERS_AVAILABLE win32 \<noteq> 0 then if_CreatePeerConnection g w
         else
           (let w = cout_endl ''DEMO: PeerConnection creation simulated'' w;
                w = cout_endl ''  - PeerConnectionInterface::RTCConfiguration config'' w;
                w = cout_endl ''  - config.sdp_semantics = SdpSemantics::kUnifiedPlan'' w;
                w = cout_endl ''  - peer_connection_factory_->CreatePeerConnection()'' w
            in (Returned True, w)))"

definition RealWebRTCClient_AddVideoStream ::
  "bool \<Rightarrow> guarded_code \<Rightarrow> world \<Rightarrow> bool outcome \<times> world" where
  "RealWebRTCClient_AddVideoStream win32 g w =
     (let w = cout_endl ''Adding video stream...'' w
      in if WEBRTC_HEADERS_AVAILABLE win32 \<noteq> 0 then if_AddVideoStream g w
         else
           (let w = cout_endl ''DEMO: Video stream addition simulated'' w;
                w = cout_endl ''  - VideoCaptureFactory::CreateDeviceInfo()'' w;
                w = cout_endl ''  - CreateVideoCapturer()'' w;
                w = cout_endl ''  - peer_connection_factory_->CreateVideoSource()'' w;
                w = cout_endl ''  - peer_connection_factory_->CreateVideoTrack()'' w;
                w = cout_endl ''  - peer_connection_->AddTrack()'' w
            in (Returned True, w)))"

definition RealWebRTCClient_AddAudioStream ::
  "bool \<Rightarrow> guarded_code \<Rightarrow> world \<Rightarrow> bool outcome \<times> world" where
  "RealWebRTCClient_AddAudioStream win32 g w =
     (let w = cout_endl ''Adding audio stream...'' w
      in if WEBRTC_HEADERS_AVAILABLE win32 \<noteq> 0 then if_AddAudioStream g w
         else
           (let w = cout_endl ''DEMO: Audio stream addition simulated'' w;
                w = cout_endl ''  - peer_connection_factory_->CreateAudioSource()'' w;
                w = cout_endl ''  - peer_connection_factory_->CreateAudioTrack()'' w;
                w = cout_endl ''  - peer_connection_->AddTrack()'' w
            in (Returned True, w)))"

definition RealWebRTCClient_CreateOffer ::
  "bool \<Rightarrow> guarded_code \<Rightarrow> world \<Rightarrow> unit outcome \<times> world" where
  "RealWebRTCClient_CreateOffer win32 g w =
     (let w = cout_endl ''Creating offer...'' w
      in if WEBRTC_HEADERS_AVAILABLE win32 \<noteq> 0 then if_CreateOffer g w
         else
           (let w = cout_endl ''DEMO: SDP offer creation simulated'' w;
                w = cout_endl ''  - peer_connection_->CreateOffer()'' w;
                w = cout_endl ''  - OnSuccess() callback with SessionDescriptionInterface'' w;
                w = cout_endl ''  - peer_connection_->SetLocalDescription()'' w
            in (Returned (), w)))"

definition RealWebRTCClient_StartVideoCapture ::
  "bool \<Rightarrow> guarded_code \<Rightarrow> world \<Rightarrow> unit outcome \<times> world" where
  "RealWebRTCClient_StartVideoCapture win32 g w =
     (let w = cout_endl ''Starting video capture...'' w
      in if WEBRTC_HEADERS_AVAILABLE win32 \<noteq> 0 then if_StartVideoCapture g w
         else
           (let w = cout_endl ''DEMO: Video capture initialization simulated'' w;
                w = cout_endl ''  - VideoCaptureFactory::CreateDeviceInfo()'' w;
                w = cout_endl ''  - device_info->NumberOfDevices()'' w;
                w = cout_endl ''  - device_info->GetDeviceName()'' w;
                w = cout_endl ''  - CreateDeviceCapturer() or CreateSquareFrameGenerator()'' w
            in (Returned (), w)))"

definition RealWebRTCClient_RenderVideo :: "world \<Rightarrow> unit outcome \<times> world" where
  "RealWebRTCClient_RenderVideo w =
     (let w = cout_endl ''Rendering video...'' w;
          w = cout_endl ''Video rendering initialized!'' w
      in (Returned (), w))"

definition RealWebRTCClient_Run ::
  "bool \<Rightarrow> guarded_code \<Rightarrow> world \<Rightarrow> unit outcome \<times> world" where
  "RealWebRTCClient_Run win32 g w =
     (let w = cout_endl ([CHR 0x0A] @ ''=== Real WebRTC Native Client Running ==='') w;
          w = cout_endl ''This uses actual WebRTC C++ source code patterns'' w;
          w = cout_endl (''========================================'' @ [CHR 0x0A]) w
      in and_then (RealWebRTCClient_InitializeWebRTC win32 g) (\<lambda>initialized w.
           if \<not> initialized then
             (Returned (), cerr_endl ''Failed to initialize WebRTC'' w)
           else
         and_then (RealWebRTCClient_CreatePeerConnection win32 g) (\<lambda>created w.
           if \<not> created then
             (Returned (), cerr_endl ''Failed to create peer connection'' w)
           else
         and_then (RealWebRTCClient_AddVideoStream win32 g) (\<lambda>_.
         and_then (RealWebRTCClient_AddAudioStream win32 g) (\<lambda>_.
         and_then (RealWebRTCClient_StartVideoCapture win32 g) (\<lambda>_.
         and_then (RealWebRTCClient_CreateOffer win32 g) (\<lambda>_.
         and_then RealWebRTCClient_RenderVideo (\<lambda>_ w.
           (let w = cout_endl ([CHR 0x0A] @ ''=== Real WebRTC Features Demonstrated ==='') w;
                w = (if WEBRTC_HEADERS_AVAILABLE win32 \<noteq> 0 then
                       (let w = cout_endl ([CHR 0xC3, CHR 0xA2, CHR 0xC5, CHR 0x93, CHR 0xE2, CHR 0x80, CHR 0xA6] @ '' Using REAL WebRTC C++ libraries'') w;
                            w = cout_endl ([CHR 0xC3, CHR 0xA2, CHR 0xC5, CHR 0x93, CHR 0xE2, CHR 0x80, CHR 0xA6] @ '' PeerConnection with actual WebRTC objects'') w;
                            w = cout_endl ([CHR 0xC3, CHR 0xA2, CHR 0xC5, CHR 0x93, CHR 0xE2, CHR 0x80, CHR 0xA6] @ '' Real video/audio capture and processing'') w;
                            w = cout_endl ([CHR 0xC3, CHR 0xA2, CHR 0xC5, CHR 0x93, CHR 0xE2, CHR 0x80, CHR 0xA6] @ '' Actual SDP negotiation and ICE handling'') w
                        in cout_endl ([CHR 0xC3, CHR 0xA2, CHR 0xC5, CHR 0x93, CHR 0xE2, CHR 0x80, CHR 0xA6] @ '' Real-time media streaming capabilities'') w)
                     else
                       (let w = cout_endl ([CHR 0xC3, CHR 0xB0, CHR 0xC5, CHR 0xB8, CHR 0xC5, CHR 0xBD, CHR 0xC2, CHR 0xAF] @ '' Real WebRTC source code patterns demonstrated'') w;
                            w = cout_endl ([CHR 0xC3, CHR 0xB0, CHR 0xC5, CHR 0xB8, CHR 0xE2, CHR 0x80, CHR 0x9C, CHR 0xE2, CHR 0x80, CHR 0xB9] @ '' Shows actual WebRTC API usage from conductor.cc'') w;
                            w = cout_endl ([CHR 0xC3, CHR 0xB0, CHR 0xC5, CHR 0xB8, CHR 0xE2, CHR 0x80, CHR 0x9D, CHR 0xC2, CHR 0xA7] @ '' Demonstrates proper WebRTC initialization flow'') w;
                            w = cout_endl ([CHR 0xC3, CHR 0xB0, CHR 0xC5, CHR 0xB8, CHR 0xE2, CHR 0x80, CHR 0x9C, CHR 0xC2, CHR 0xB9] @ '' Shows video/audio capture and track creation'') w;
                            w = cout_endl ([CHR 0xC3, CHR 0xB0, CHR 0xC5, CHR 0xB8, CHR 0xC5, CHR 0x92] @ '' Demonstrates SDP offer/answer and ICE handling'') w
                        in cout_endl ([CHR 0xC3, CHR 0xB0, CHR 0xC5, CHR 0xB8, CHR 0xE2, CHR 0x80, CHR 0x99, CHR 0xC2, CHR 0xA1] @ '' To use real WebRTC, build with WebRTC libraries'') w));
                w = cout_endl (''===================================='' @ [CHR 0x0A]) w;
                w = cout_endl ''Press Enter to exit...'' w;
                w = cin_get w
            in (Returned (), w))))))) w) w) w)"

definition real_main_try :: "bool \<Rightarrow> guarded_code \<Rightarrow> world \<Rightarrow> unit outcome \<times> world" where
  "real_main_try win32 g w =
     and_then (RealWebRTCClient_ctor win32) (\<lambda>_ w.
       (case RealWebRTCClient_Run win32 g w of
          (r, w) \<Rightarrow> (r, RealWebRTCClient_dtor win32 w))) w"

definition real_main :: "bool \<Rightarrow> guarded_code \<Rightarrow> world \<Rightarrow> int \<times> world" where
  "real_main win32 g w =
     (let w = cout_endl ([CHR 0xC3, CHR 0xB0, CHR 0xC5, CHR 0xB8, CHR 0xC5, CHR 0xBD, CHR 0xC2, CHR 0xA5] @ '' Real WebRTC Native Video Streaming Client'') w;
          w = cout_endl ''Using WebRTC C++ Source Code Patterns'' w;
          w = cout_endl (''=========================================='' @ [CHR 0x0A]) w
      in catch_exception (real_main_try win32 g) w)"


section \<open>What a run shows\<close>

text \<open>The start of a process: nothing done yet, the given input waiting, and the
  given answer of the socket layer.\<close>

definition process_start :: "string \<Rightarrow> int \<Rightarrow> world" where
  "process_start input rc = \<lparr>trace = [], stdin = input, wsa_result = rc\<rparr>"

fun stdout_bytes :: "event \<Rightarrow> string" where
  "stdout_bytes (Write_stdout s) = s"
| "stdout_bytes _ = []"

fun stderr_bytes :: "event \<Rightarrow> string" where
  "stderr_bytes (Write_stderr s) = s"
| "stderr_bytes _ = []"

fun is_read :: "event \<Rightarrow> bool" where
  "is_read (Read_stdin _) = True"
| "is_read _ = False"

definition stdout_of :: "event list \<Rightarrow> string" where
  "stdout_of es = concat (map stdout_bytes es)"

definition stderr_of :: "event list \<Rightarrow> string" where
  "stderr_of es = concat (map stderr_bytes es)"

text \<open>The lines of a stream: the pieces between newlines; a last piece with no newline
  after it counts when it is not empty.\<close>

fun split_lines :: "string \<Rightarrow> string \<Rightarrow> string list" where
  "split_lines cur [] = (if cur = [] then [] else [cur])"
| "split_lines cur (c # cs) =
     (if c = CHR 0x0A then cur # split_lines [] cs else split_lines (cur @ [c]) cs)"

definition lines_of :: "string \<Rightarrow> string list" where
  "lines_of s = split_lines [] s"

text \<open>The events of printing the given texts with \<open>std::cout << \<dots> << std::endl\<close>, one
  statement each.\<close>

definition says :: "string list \<Rightarrow> event list" where
  "says ls = map (\<lambda>l. Write_stdout (l @ [CHR 0x0A])) ls"

text \<open>What a call does when nothing has happened before it.\<close>

definition events_of :: "(world \<Rightarrow> 'a outcome \<times> world) \<Rightarrow> event list" where
  "events_of m = trace (snd (m (process_start [] 0)))"

text \<open>The character that the next \<open>std::cin.get()\<close> obtains.\<close>

definition next_char :: "world \<Rightarrow> char option" where
  "next_char w = (case stdin w of [] \<Rightarrow> None | c # cs \<Rightarrow> Some c)"

text \<open>Console output, as opposed to reading input and calling the socket layer.\<close>

fun is_stdout_write :: "event \<Rightarrow> bool" where
  "is_stdout_write (Write_stdout _) = True"
| "is_stdout_write _ = False"


section \<open>How the calls change the world\<close>

lemma cout_endl_trace: "cout_endl s w = w\<lparr>trace := trace w @ says [s]\<rparr>"
  by (simp add: cout_endl_def emit_def says_def)

lemma cerr_endl_trace: "cerr_endl s w = w\<lparr>trace := trace w @ [Write_stderr (s @ [CHR 0x0A])]\<rparr>"
  by (simp add: cerr_endl_def emit_def)

lemma says_append: "says xs @ says ys = says (xs @ ys)"
  by (simp add: says_def)

lemma says_append_assoc: "says xs @ says ys @ es = says (xs @ ys) @ es"
  by (simp add: says_def)

lemma stub_CreatePeerConnection_frame:
  "SimpleWebRTCClient_CreatePeerConnection w =
     (Returned True, w\<lparr>trace := trace w @
        says [''Creating PeerConnection...'', ''PeerConnection created successfully (stub)!'']\<rparr>)"
  by (simp add: SimpleWebRTCClient_CreatePeerConnection_def cout_endl_trace says_append)

lemma stub_AddVideoStream_frame:
  "SimpleWebRTCClient_AddVideoStream w =
     (Returned True, w\<lparr>trace := trace w @
        says [''Adding video stream...'', ''Video stream added successfully (stub)!'']\<rparr>)"
  by (simp add: SimpleWebRTCClient_AddVideoStream_def cout_endl_trace says_append)

lemma stub_AddAudioStream_frame:
  "SimpleWebRTCClient_AddAudioStream w =
     (Returned True, w\<lparr>trace := trace w @
        says [''Adding audio stream...'', ''Audio stream added successfully (stub)!'']\<rparr>)"
  by (simp add: SimpleWebRTCClient_AddAudioStream_def cout_endl_trace says_append)

lemma stub_CreateOffer_frame:
  "SimpleWebRTCClient_CreateOffer w =
     (Returned (), w\<lparr>trace := trace w @
        says [''Creating offer...'', ''Offer created successfully (stub)!'']\<rparr>)"
  by (simp add: SimpleWebRTCClient_CreateOffer_def cout_endl_trace says_append)

lemma stub_StartVideoCapture_frame:
  "SimpleWebRTCClient_StartVideoCapture w =
     (Returned (), w\<lparr>trace := trace w @
        says [''Starting video capture...'', ''Video capture started (stub)!'']\<rparr>)"
  by (simp add: SimpleWebRTCClient_StartVideoCapture_def cout_endl_trace says_append)

lemma stub_RenderVideo_frame:
  "SimpleWebRTCClient_RenderVideo w =
     (Returned (), w\<lparr>trace := trace w @
        says [''Rendering video...'', ''Video rendering active (stub)!'']\<rparr>)"
  by (simp add: SimpleWebRTCClient_RenderVideo_def cout_endl_trace says_append)

lemmas stub_frames = stub_CreatePeerConnection_frame stub_AddVideoStream_frame
  stub_AddAudioStream_frame stub_CreateOffer_frame stub_StartVideoCapture_frame
  stub_RenderVideo_frame

lemma events_of_frame:
  "(\<And>w. m w = (r, w\<lparr>trace := trace w @ es\<rparr>)) \<Longrightarrow> events_of m = es"
  by (simp add: events_of_def process_start_def)

lemma stub_Run_frame:
  "SimpleWebRTCClient_Run w =
     (Returned (), cin_get (w\<lparr>trace := trace w @
        says [[CHR 0x0A] @ ''=== WebRTC Native Client Running ==='',
              ''This demonstrates the structure of a native WebRTC application'',
              ''====================================='' @ [CHR 0x0A]]
        @ events_of SimpleWebRTCClient_CreatePeerConnection
        @ events_of SimpleWebRTCClient_AddVideoStream
        @ events_of SimpleWebRTCClient_AddAudioStream
        @ events_of SimpleWebRTCClient_StartVideoCapture
        @ events_of SimpleWebRTCClient_CreateOffer
        @ events_of SimpleWebRTCClient_RenderVideo
        @ says [[CHR 0x0A] @ ''=== Native WebRTC Features Demonstrated ==='',
                [CHR 0xE2, CHR 0x9C, CHR 0x85] @ '' PeerConnection creation'',
                [CHR 0xE2, CHR 0x9C, CHR 0x85] @ '' Video stream handling'',
                [CHR 0xE2, CHR 0x9C, CHR 0x85] @ '' Audio stream handling'',
                [CHR 0xE2, CHR 0x9C, CHR 0x85] @ '' Video capture'',
                [CHR 0xE2, CHR 0x9C, CHR 0x85] @ '' SDP offer/answer'',
                [CHR 0xE2, CHR 0x9C, CHR 0x85] @ '' Video rendering'',
                [CHR 0xE2, CHR 0x9C, CHR 0x85] @ '' Signaling protocol'',
                ''=========================================='' @ [CHR 0x0A],
                ''Press Enter to exit...'']\<rparr>))"
  by (simp add: SimpleWebRTCClient_Run_def and_then_def stub_frames
        events_of_frame[OF stub_CreatePeerConnection_frame]
        events_of_frame[OF stub_AddVideoStream_frame]
        events_of_frame[OF stub_AddAudioStream_frame]
        events_of_frame[OF stub_StartVideoCapture_frame]
        events_of_frame[OF stub_CreateOffer_frame]
        events_of_frame[OF stub_RenderVideo_frame]
        cout_endl_trace says_def)

lemma WEBRTC_HEADERS_AVAILABLE_zero: "WEBRTC_HEADERS_AVAILABLE win32 = 0"
  by (simp add: WEBRTC_HEADERS_AVAILABLE_def)

lemma real_InitializeWebRTC_frame:
  "RealWebRTCClient_InitializeWebRTC win32 g w =
     (Returned True, w\<lparr>trace := trace w @
        says [''Initializing WebRTC...'',
              ''DEMO: WebRTC initialization simulated'',
              ''  - CreateDefaultTaskQueueFactory()'',
              ''  - CreateEnvironment()'',
              ''  - CreateModularPeerConnectionFactory()'',
              ''  - CreateBuiltinAudioEncoderFactory()'',
              ''  - CreateBuiltinVideoEncoderFactory()'']\<rparr>)"
  by (simp add: RealWebRTCClient_InitializeWebRTC_def WEBRTC_HEADERS_AVAILABLE_zero
        cout_endl_trace says_append)

lemma real_CreatePeerConnection_frame:
  "RealWebRTCClient_CreatePeerConnection win32 g w =
     (Returned True, w\<lparr>trace := trace w @
        says [''Creating PeerConnection...'',
              ''DEMO: PeerConnection creation simulated'',
              ''  - PeerConnectionInterface::RTCConfiguration config'',
              ''  - config.sdp_semantics = SdpSemantics::kUnifiedPlan'',
              ''  - peer_connection_factory_->CreatePeerConnection()'']\<rparr>)"
  by (simp add: RealWebRTCClient_CreatePeerConnection_def WEBRTC_HEADERS_AVAILABLE_zero
        cout_endl_trace says_append)

lemma real_AddVideoStream_frame:
  "RealWebRTCClient_AddVideoStream win32 g w =
     (Returned True, w\<lparr>trace := trace w @
        says [''Adding video stream...'',
              ''DEMO: Video stream addition simulated'',
              ''  - VideoCaptureFactory::CreateDeviceInfo()'',
              ''  - CreateVideoCapturer()'',
              ''  - peer_connection_factory_->CreateVideoSource()'',
              ''  - peer_connection_factory_->CreateVideoTrack()'',
              ''  - peer_connection_->AddTrack()'']\<rparr>)"
  by (simp add: RealWebRTCClient_AddVideoStream_def WEBRTC_HEADERS_AVAILABLE_zero
        cout_endl_trace says_append)

lemma real_AddAudioStream_frame:
  "RealWebRTCClient_AddAudioStream win32 g w =
     (Returned True, w\<lparr>trace := trace w @
        says [''Adding audio stream...'',
              ''DEMO: Audio stream addition simulated'',
              ''  - peer_connection_factory_->CreateAudioSource()'',
              ''  - peer_connection_factory_->CreateAudioTrack()'',
              ''  - peer_connection_->AddTrack()'']\<rparr>)"
  by (simp add: RealWebRTCClient_AddAudioStream_def WEBRTC_HEADERS_AVAILABLE_zero
        cout_endl_trace says_append)

lemma real_CreateOffer_frame:
  "RealWebRTCClient_CreateOffer win32 g w =
     (Returned (), w\<lparr>trace := trace w @
        says [''Creating offer...'',
              ''DEMO: SDP offer creation simulated'',
              ''  - peer_connection_->CreateOffer()'',
              ''  - OnSuccess() callback with SessionDescriptionInterface'',
              ''  - peer_connection_->SetLocalDescription()'']\<rparr>)"
  by (simp add: RealWebRTCClient_CreateOffer_def WEBRTC_HEADERS_AVAILABLE_zero
        cout_endl_trace says_append)

lemma real_StartVideoCapture_frame:
  "RealWebRTCClient_StartVideoCapture win32 g w =
     (Returned (), w\<lparr>trace := trace w @
        says [''Starting video capture...'',
              ''DEMO: Video capture initialization simulated'',
              ''  - VideoCaptureFactory::CreateDeviceInfo()'',
              ''  - device_info->NumberOfDevices()'',
              ''  - device_info->GetDeviceName()'',
              ''  - CreateDeviceCapturer() or CreateSquareFrameGenerator()'']\<rparr>)"
  by (simp add: RealWebRTCClient_StartVideoCapture_def WEBRTC_HEADERS_AVAILABLE_zero
        cout_endl_trace says_append)

lemma real_RenderVideo_frame:
  "RealWebRTCClient_RenderVideo w =
     (Returned (), w\<lparr>trace := trace w @
        says [''Rendering video...'', ''Video rendering initialized!'']\<rparr>)"
  by (simp add: RealWebRTCClient_RenderVideo_def cout_endl_trace says_append)

lemmas real_frames = real_InitializeWebRTC_frame real_CreatePeerConnection_frame
  real_AddVideoStream_frame real_AddAudioStream_frame real_CreateOffer_frame
  real_StartVideoCapture_frame real_RenderVideo_frame

lemmas stub_events = 
        events_of_frame[OF stub_CreatePeerConnection_frame]
        events_of_frame[OF stub_AddVideoStream_frame]
        events_of_frame[OF stub_AddAudioStream_frame]
        events_of_frame[OF stub_StartVideoCapture_frame]
        events_of_frame[OF stub_CreateOffer_frame]
        events_of_frame[OF stub_RenderVideo_frame]

lemmas real_events =
        events_of_frame[OF real_InitializeWebRTC_frame]
        events_of_frame[OF real_CreatePeerConnection_frame]
        events_of_frame[OF real_AddVideoStream_frame]
        events_of_frame[OF real_AddAudioStream_frame]
        events_of_frame[OF real_StartVideoCapture_frame]
        events_of_frame[OF real_CreateOffer_frame]
        events_of_frame[OF real_RenderVideo_frame]

lemma real_Run_frame:
  "RealWebRTCClient_Run win32 g w =
     (Returned (), cin_get (w\<lparr>trace := trace w @
        says [[CHR 0x0A] @ ''=== Real WebRTC Native Client Running ==='',
              ''This uses actual WebRTC C++ source code patterns'',
              ''========================================'' @ [CHR 0x0A]]
        @ events_of (RealWebRTCClient_InitializeWebRTC win32 g)
        @ events_of (RealWebRTCClient_CreatePeerConnection win32 g)
        @ events_of (RealWebRTCClient_AddVideoStream win32 g)
        @ events_of (RealWebRTCClient_AddAudioStream win32 g)
        @ events_of (RealWebRTCClient_StartVideoCapture win32 g)
        @ events_of (RealWebRTCClient_CreateOffer win32 g)
        @ events_of RealWebRTCClient_RenderVideo
        @ says [[CHR 0x0A] @ ''=== Real WebRTC Features Demonstrated ==='',
                [CHR 0xC3, CHR 0xB0, CHR 0xC5, CHR 0xB8, CHR 0xC5, CHR 0xBD, CHR 0xC2, CHR 0xAF] @ '' Real WebRTC source code patterns demonstrated'',
                [CHR 0xC3, CHR 0xB0, CHR 0xC5, CHR 0xB8, CHR 0xE2, CHR 0x80, CHR 0x9C, CHR 0xE2, CHR 0x80, CHR 0xB9] @ '' Shows actual WebRTC API usage from conductor.cc'',
                [CHR 0xC3, CHR 0xB0, CHR 0xC5, CHR 0xB8, CHR 0xE2, CHR 0x80, CHR 0x9D, CHR 0xC2, CHR 0xA7] @ '' Demonstrates proper WebRTC initialization flow'',
                [CHR 0xC3, CHR 0xB0, CHR 0xC5, CHR 0xB8, CHR 0xE2, CHR 0x80, CHR 0x9C, CHR 0xC2, CHR 0xB9] @ '' Shows video/audio capture and track creation'',
                [CHR 0xC3, CHR 0xB0, CHR 0xC5, CHR 0xB8, CHR 0xC5, CHR 0x92] @ '' Demonstrates SDP offer/answer and ICE handling'',
                [CHR 0xC3, CHR 0xB0, CHR 0xC5, CHR 0xB8, CHR 0xE2, CHR 0x80, CHR 0x99, CHR 0xC2, CHR 0xA1] @ '' To use real WebRTC, build with WebRTC libraries'',
                ''===================================='' @ [CHR 0x0A],
                ''Press Enter to exit...'']\<rparr>))"
  by (simp add: RealWebRTCClient_Run_def and_then_def real_frames real_events
        WEBRTC_HEADERS_AVAILABLE_zero cout_endl_trace says_def)

lemma cin_get_frame:
  "cin_get w = w\<lparr>trace := trace w @ [Read_stdin (next_char w)], stdin := drop 1 (stdin w)\<rparr>"
  by (cases "stdin w") (simp_all add: cin_get_def emit_def next_char_def)

lemma stub_ctor_frame:
  "SimpleWebRTCClient_ctor win32 w =
     (Returned (), w\<lparr>trace := trace w @
        says [''=== WebRTC Native Client - Stub Version ==='',
              ''This demonstrates the native WebRTC implementation'',
              ''============================================'' @ [CHR 0x0A]]
        @ (if win32 then
             Call_WSAStartup (wsa_result w) #
               (if wsa_result w \<noteq> 0 then
                  [Write_stderr (''Failed to initialize Windows networking'' @ [CHR 0x0A])]
                else says [''Windows networking initialized'',
                           ''WebRTC Client initialized (stub version)!''])
           else says [''WebRTC Client initialized (stub version)!''])\<rparr>)"
  by (simp add: SimpleWebRTCClient_ctor_def WSAStartup_def emit_def cout_endl_trace
        cerr_endl_trace says_def)

lemma real_ctor_frame:
  "RealWebRTCClient_ctor win32 w =
     (Returned (), w\<lparr>trace := trace w @
        says [''=== Real WebRTC Native Client ===''] 
        @ (if win32 then
             Call_WSAStartup (wsa_result w) #
               (if wsa_result w \<noteq> 0 then
                  [Write_stderr (''Failed to initialize Windows networking'' @ [CHR 0x0A])]
                else says [''Windows networking initialized'',
                           ''Running in DEMO mode (WebRTC headers not available)'',
                           ''Showing real WebRTC source code patterns'',
                           ''WebRTC Client initialized!''])
           else says [''Running in DEMO mode (WebRTC headers not available)'',
                      ''Showing real WebRTC source code patterns'',
                      ''WebRTC Client initialized!''])\<rparr>)"
  by (simp add: RealWebRTCClient_ctor_def WSAStartup_def emit_def cout_endl_trace
        cerr_endl_trace says_def WEBRTC_HEADERS_AVAILABLE_zero)

lemma stub_main_frame:
  "stub_main win32 w =
     (0, SimpleWebRTCClient_dtor win32 (snd (SimpleWebRTCClient_Run (snd
           (SimpleWebRTCClient_ctor win32 (w\<lparr>trace := trace w @
              says [[CHR 0xF0, CHR 0x9F, CHR 0x8E, CHR 0xA5] @ '' WebRTC Native Video Streaming Client'',
                    ''Using WebRTC C++ Source Code (Stub Version)'',
                    ''=========================================='' @ [CHR 0x0A]]\<rparr>))))))"
  by (simp add: stub_main_def stub_main_try_def catch_exception_def and_then_def
        stub_ctor_frame stub_Run_frame cout_endl_trace says_def)

lemma real_main_frame:
  "real_main win32 g w =
     (0, RealWebRTCClient_dtor win32 (snd (RealWebRTCClient_Run win32 g (snd
           (RealWebRTCClient_ctor win32 (w\<lparr>trace := trace w @
              says [[CHR 0xC3, CHR 0xB0, CHR 0xC5, CHR 0xB8, CHR 0xC5, CHR 0xBD, CHR 0xC2, CHR 0xA5] @ '' Real WebRTC Native Video Streaming Client'',
                    ''Using WebRTC C++ Source Code Patterns'',
                    ''=========================================='' @ [CHR 0x0A]]\<rparr>))))))"
  by (simp add: real_main_def real_main_try_def catch_exception_def and_then_def
        real_ctor_frame real_Run_frame cout_endl_trace says_def)

lemma dtor_frame:
  "SimpleWebRTCClient_dtor win32 w = w\<lparr>trace := trace w @ (if win32 then [Call_WSACleanup] else [])\<rparr>"
  "RealWebRTCClient_dtor win32 w = w\<lparr>trace := trace w @ (if win32 then [Call_WSACleanup] else [])\<rparr>"
  by (simp_all add: SimpleWebRTCClient_dtor_def RealWebRTCClient_dtor_def WSACleanup_def emit_def)

lemma stdout_of_append: "stdout_of (a @ b) = stdout_of a @ stdout_of b"
  by (simp add: stdout_of_def)

lemma stdout_of_simps:
  "stdout_of [] = []"
  "stdout_of (Write_stdout s # es) = s @ stdout_of es"
  "stdout_of (Write_stderr s # es) = stdout_of es"
  "stdout_of (Read_stdin c # es) = stdout_of es"
  "stdout_of (Call_WSAStartup rc # es) = stdout_of es"
  "stdout_of (Call_WSACleanup # es) = stdout_of es"
  by (simp_all add: stdout_of_def)

lemma stdout_of_says_join:
  "stdout_of (says a) @ stdout_of (says b) = stdout_of (says (a @ b))"
  "stdout_of (says a) @ stdout_of (says b) @ r = stdout_of (says (a @ b)) @ r"
  by (simp_all add: stdout_of_def says_def)

lemma stdout_of_says: "stdout_of (says ls) = concat (map (\<lambda>l. l @ [CHR 0x0A]) ls)"
  by (simp add: stdout_of_def says_def comp_def)

lemma split_lines_no_newline:
  "CHR 0x0A \<notin> set l \<Longrightarrow> split_lines cur (l @ [CHR 0x0A]) = [cur @ l]"
  by (induction l arbitrary: cur) auto

lemma split_lines_at_newline:
  "split_lines cur (pre @ CHR 0x0A # rest) =
     split_lines cur (pre @ [CHR 0x0A]) @ split_lines [] rest"
  by (induction pre arbitrary: cur) auto

lemma last_line_says:
  assumes "ls \<noteq> []" and "CHR 0x0A \<notin> set (last ls)"
  shows "last (lines_of (stdout_of (says ls))) = last ls"
proof -
  obtain xs l where ls: "ls = xs @ [l]"
    using assms(1) by (metis append_butlast_last_id)
  have l: "CHR 0x0A \<notin> set l" using assms(2) ls by simp
  show ?thesis
  proof (cases xs rule: rev_cases)
    case Nil
    then show ?thesis
      using split_lines_no_newline[OF l, of "[]"] by (simp add: ls stdout_of_says lines_of_def)
  next
    case (snoc ys x)
    let ?pre = "concat (map (\<lambda>l. l @ [CHR 0x0A]) ys) @ x"
    have "stdout_of (says ls) = ?pre @ CHR 0x0A # (l @ [CHR 0x0A])"
      by (simp add: ls snoc stdout_of_says)
    moreover have "split_lines [] (?pre @ CHR 0x0A # (l @ [CHR 0x0A])) =
            split_lines [] (?pre @ [CHR 0x0A]) @ split_lines [] (l @ [CHR 0x0A])"
      by (rule split_lines_at_newline)
    ultimately have "lines_of (stdout_of (says ls)) = split_lines [] (?pre @ [CHR 0x0A]) @ [l]"
      using split_lines_no_newline[OF l, of "[]"] by (simp add: lines_of_def)
    then show ?thesis by (simp add: ls)
  qed
qed

lemma stub_HandleSignaling_frame:
  "SimpleWebRTCClient_HandleSignaling message w =
     (Returned (), w\<lparr>trace := trace w @
        says [''Handling signaling message: '' @ take 50 message @ ''...'']\<rparr>)"
  by (simp add: SimpleWebRTCClient_HandleSignaling_def substr_def cout_endl_trace)

lemmas stub_Run_says =
  stub_Run_frame[unfolded stub_events says_append_assoc says_append append_Cons append_Nil]

lemmas real_Run_says =
  real_Run_frame[unfolded real_events says_append_assoc says_append append_Cons append_Nil]

lemmas stub_ctor_not_win32 =
  stub_ctor_frame[of False, unfolded if_False says_append append_Cons append_Nil]

lemmas real_ctor_not_win32 =
  real_ctor_frame[of False, unfolded if_False says_append append_Cons append_Nil]

lemmas stub_ctor_win32 = stub_ctor_frame[of True, unfolded if_True]

lemmas real_ctor_win32 = real_ctor_frame[of True, unfolded if_True]

lemma stub_Run_prints:
  "\<exists>ls. \<forall>w. SimpleWebRTCClient_Run w =
          (Returned (), cin_get (w\<lparr>trace := trace w @ says ls\<rparr>))"
  by (intro exI allI) (rule stub_Run_says)

lemma real_Run_prints:
  "\<exists>ls. \<forall>w. RealWebRTCClient_Run win32 g w =
          (Returned (), cin_get (w\<lparr>trace := trace w @ says ls\<rparr>))"
  by (intro exI allI) (rule real_Run_says)

section \<open>The streams of a run\<close>

lemma stderr_of_append: "stderr_of (a @ b) = stderr_of a @ stderr_of b"
  by (simp add: stderr_of_def)

lemma stderr_of_simps:
  "stderr_of [] = []"
  "stderr_of (Write_stdout s # es) = stderr_of es"
  "stderr_of (Write_stderr s # es) = s @ stderr_of es"
  "stderr_of (Read_stdin c # es) = stderr_of es"
  "stderr_of (Call_WSAStartup rc # es) = stderr_of es"
  "stderr_of (Call_WSACleanup # es) = stderr_of es"
  by (simp_all add: stderr_of_def)

lemma stderr_of_says: "stderr_of (says ls) = []"
  by (induction ls) (simp_all add: says_def stderr_of_def)

lemma filter_is_read_says: "filter is_read (says ls) = []"
  by (induction ls) (simp_all add: says_def)

lemma list_all_says: "list_all is_stdout_write (says ls)"
  by (induction ls) (simp_all add: says_def)

lemma sublist_across:
  assumes "c \<notin> set p"
  shows "sublist p (a @ c # b) \<longleftrightarrow> sublist p a \<or> sublist p b"
proof
  assume "sublist p (a @ c # b)"
  then consider "sublist p a" | "sublist p (c # b)"
    | xs1 xs2 where "p = xs1 @ xs2" "suffix xs1 a" "prefix xs2 (c # b)"
    by (auto simp: sublist_append)
  then show "sublist p a \<or> sublist p b"
  proof cases
    case 1 then show ?thesis by simp
  next
    case 2
    then have "prefix p (c # b) \<or> sublist p b" by (simp add: sublist_Cons_right)
    moreover have "prefix p (c # b) \<Longrightarrow> p = []"
      using assms by (cases p) auto
    ultimately show ?thesis by auto
  next
    case 3
    have "xs2 = []" using 3(1,3) assms by (cases xs2) auto
    then have "suffix p a" using 3 by simp
    then show ?thesis by (auto intro: suffix_imp_sublist)
  qed
next
  assume "sublist p a \<or> sublist p b"
  then show "sublist p (a @ c # b)"
    by (auto simp: sublist_append sublist_Cons_right)
qed

lemma sublist_says:
  assumes "CHR 0x0A \<notin> set p" and "p \<noteq> []"
  shows "sublist p (stdout_of (says ls)) \<longleftrightarrow> list_ex (sublist p) ls"
proof (induction ls)
  case Nil
  show ?case using assms(2) by (simp add: stdout_of_says)
next
  case (Cons l ls)
  have "stdout_of (says (l # ls)) = l @ CHR 0x0A # stdout_of (says ls)"
    by (simp add: stdout_of_says)
  then show ?case using Cons sublist_across[OF assms(1)] by simp
qed

lemma stub_main_stdout:
  "stdout_of (trace (snd (stub_main win32 w))) =
     stdout_of (trace w) @ stdout_of (says (
       [[CHR 0xF0, CHR 0x9F, CHR 0x8E, CHR 0xA5] @ '' WebRTC Native Video Streaming Client'',
        ''Using WebRTC C++ Source Code (Stub Version)'',
        ''=========================================='' @ [CHR 0x0A],
        ''=== WebRTC Native Client - Stub Version ==='',
        ''This demonstrates the native WebRTC implementation'',
        ''============================================'' @ [CHR 0x0A]]
       @ (if win32 then
            (if wsa_result w \<noteq> 0 then []
             else [''Windows networking initialized'',
                   ''WebRTC Client initialized (stub version)!''])
          else [''WebRTC Client initialized (stub version)!''])
       @ [[CHR 0x0A] @ ''=== WebRTC Native Client Running ==='',
          ''This demonstrates the structure of a native WebRTC application'',
          ''====================================='' @ [CHR 0x0A],
          ''Creating PeerConnection...'',
          ''PeerConnection created successfully (stub)!'',
          ''Adding video stream...'',
          ''Video stream added successfully (stub)!'',
          ''Adding audio stream...'',
          ''Audio stream added successfully (stub)!'',
          ''Starting video capture...'',
          ''Video capture started (stub)!'',
          ''Creating offer...'',
          ''Offer created successfully (stub)!'',
          ''Rendering video...'',
          ''Video rendering active (stub)!'',
          [CHR 0x0A] @ ''=== Native WebRTC Features Demonstrated ==='',
          [CHR 0xE2, CHR 0x9C, CHR 0x85] @ '' PeerConnection creation'',
          [CHR 0xE2, CHR 0x9C, CHR 0x85] @ '' Video stream handling'',
          [CHR 0xE2, CHR 0x9C, CHR 0x85] @ '' Audio stream handling'',
          [CHR 0xE2, CHR 0x9C, CHR 0x85] @ '' Video capture'',
          [CHR 0xE2, CHR 0x9C, CHR 0x85] @ '' SDP offer/answer'',
          [CHR 0xE2, CHR 0x9C, CHR 0x85] @ '' Video rendering'',
          [CHR 0xE2, CHR 0x9C, CHR 0x85] @ '' Signaling protocol'',
          ''=========================================='' @ [CHR 0x0A]]
       @ [''Press Enter to exit...'']))"
  by (cases win32; cases "wsa_result w = 0")
     (simp_all add: stub_main_frame stub_ctor_frame stub_Run_frame dtor_frame cin_get_frame
        stdout_of_append stdout_of_simps stdout_of_says_join stub_events)

lemma real_main_stdout:
  "stdout_of (trace (snd (real_main win32 g w))) =
     stdout_of (trace w) @ stdout_of (says (
       [[CHR 0xC3, CHR 0xB0, CHR 0xC5, CHR 0xB8, CHR 0xC5, CHR 0xBD, CHR 0xC2, CHR 0xA5] @ '' Real WebRTC Native Video Streaming Client'',
        ''Using WebRTC C++ Source Code Patterns'',
        ''=========================================='' @ [CHR 0x0A],
        ''=== Real WebRTC Native Client ===''] 
       @ (if win32 \<and> wsa_result w \<noteq> 0 then []
          else (if win32 then [''Windows networking initialized''] else [])
             @ [''Running in DEMO mode (WebRTC headers not available)'',
                ''Showing real WebRTC source code patterns'',
                ''WebRTC Client initialized!''])
       @ [[CHR 0x0A] @ ''=== Real WebRTC Native Client Running ==='',
          ''This uses actual WebRTC C++ source code patterns'',
          ''========================================'' @ [CHR 0x0A],
          ''Initializing WebRTC...'',
          ''DEMO: WebRTC initialization simulated'',
          ''  - CreateDefaultTaskQueueFactory()'',
          ''  - CreateEnvironment()'',
          ''  - CreateModularPeerConnectionFactory()'',
          ''  - CreateBuiltinAudioEncoderFactory()'',
          ''  - CreateBuiltinVideoEncoderFactory()'',
          ''Creating PeerConnection...'',
          ''DEMO: PeerConnection creation simulated'',
          ''  - PeerConnectionInterface::RTCConfiguration config'',
          ''  - config.sdp_semantics = SdpSemantics::kUnifiedPlan'',
          ''  - peer_connection_factory_->CreatePeerConnection()'',
          ''Adding video stream...'',
          ''DEMO: Video stream addition simulated'',
          ''  - VideoCaptureFactory::CreateDeviceInfo()'',
          ''  - CreateVideoCapturer()'',
          ''  - peer_connection_factory_->CreateVideoSource()'',
          ''  - peer_connection_factory_->CreateVideoTrack()'',
          ''  - peer_connection_->AddTrack()'',
          ''Adding audio stream...'',
          ''DEMO: Audio stream addition simulated'',
          ''  - peer_connection_factory_->CreateAudioSource()'',
          ''  - peer_connection_factory_->CreateAudioTrack()'',
          ''  - peer_connection_->AddTrack()'',
          ''Starting video capture...'',
          ''DEMO: Video capture initialization simulated'',
          ''  - VideoCaptureFactory::CreateDeviceInfo()'',
          ''  - device_info->NumberOfDevices()'',
          ''  - device_info->GetDeviceName()'',
          ''  - CreateDeviceCapturer() or CreateSquareFrameGenerator()'',
          ''Creating offer...'',
          ''DEMO: SDP offer creation simulated'',
          ''  - peer_connection_->CreateOffer()'',
          ''  - OnSuccess() callback with SessionDescriptionInterface'',
          ''  - peer_connection_->SetLocalDescription()'',
          ''Rendering video...'',
          ''Video rendering initialized!'',
          [CHR 0x0A] @ ''=== Real WebRTC Features Demonstrated ==='',
          [CHR 0xC3, CHR 0xB0, CHR 0xC5, CHR 0xB8, CHR 0xC5, CHR 0xBD, CHR 0xC2, CHR 0xAF] @ '' Real WebRTC source code patterns demonstrated'',
          [CHR 0xC3, CHR 0xB0, CHR 0xC5, CHR 0xB8, CHR 0xE2, CHR 0x80, CHR 0x9C, CHR 0xE2, CHR 0x80, CHR 0xB9] @ '' Shows actual WebRTC API usage from conductor.cc'',
          [CHR 0xC3, CHR 0xB0, CHR 0xC5, CHR 0xB8, CHR 0xE2, CHR 0x80, CHR 0x9D, CHR 0xC2, CHR 0xA7] @ '' Demonstrates proper WebRTC initialization flow'',
          [CHR 0xC3, CHR 0xB0, CHR 0xC5, CHR 0xB8, CHR 0xE2, CHR 0x80, CHR 0x9C, CHR 0xC2, CHR 0xB9] @ '' Shows video/audio capture and track creation'',
          [CHR 0xC3, CHR 0xB0, CHR 0xC5, CHR 0xB8, CHR 0xC5, CHR 0x92] @ '' Demonstrates SDP offer/answer and ICE handling'',
          [CHR 0xC3, CHR 0xB0, CHR 0xC5, CHR 0xB8, CHR 0xE2, CHR 0x80, CHR 0x99, CHR 0xC2, CHR 0xA1] @ '' To use real WebRTC, build with WebRTC libraries'',
          ''===================================='' @ [CHR 0x0A]]
       @ [''Press Enter to exit...'']))"
  by (cases win32; cases "wsa_result w = 0")
     (simp_all add: real_main_frame real_ctor_frame real_Run_frame dtor_frame cin_get_frame
        stdout_of_append stdout_of_simps stdout_of_says_join real_events)

lemma last_line_of_script:
  assumes "out = stdout_of (trace w) @ stdout_of (says (as @ ms @ bs @ [l]))"
      and "trace w = []" and "CHR 0x0A \<notin> set l"
  shows "last (lines_of out) = l"
  using last_line_says[of "as @ ms @ bs @ [l]"] assms by (simp add: stdout_of_simps)

lemma stub_Run_ending:
  "suffix (says [''=========================================='' @ [CHR 0x0A],
                 ''Press Enter to exit...''] @ [Read_stdin (next_char w)])
          (trace (snd (SimpleWebRTCClient_Run w)))"
  by (simp add: stub_Run_frame cin_get_frame next_char_def says_def suffix_def)

lemma real_Run_ending:
  "suffix (says [''===================================='' @ [CHR 0x0A],
                 ''Press Enter to exit...''] @ [Read_stdin (next_char w)])
          (trace (snd (RealWebRTCClient_Run win32 g w)))"
  by (simp add: real_Run_frame cin_get_frame next_char_def says_def suffix_def)

lemma stub_main_reads:
  "filter is_read (trace (snd (stub_main win32 w))) =
     filter is_read (trace w) @ [Read_stdin (next_char w)]"
  by (cases win32; cases "wsa_result w = 0")
     (simp_all add: stub_main_frame stub_ctor_frame stub_Run_frame dtor_frame cin_get_frame
        next_char_def filter_is_read_says stub_events)

lemma real_main_reads:
  "filter is_read (trace (snd (real_main win32 g w))) =
     filter is_read (trace w) @ [Read_stdin (next_char w)]"
  by (cases win32; cases "wsa_result w = 0")
     (simp_all add: real_main_frame real_ctor_frame real_Run_frame dtor_frame cin_get_frame
        next_char_def filter_is_read_says real_events)

lemma stub_main_stdin: "stdin (snd (stub_main win32 w)) = drop 1 (stdin w)"
  by (simp add: stub_main_frame stub_ctor_frame stub_Run_frame dtor_frame cin_get_frame)

lemma real_main_stdin: "stdin (snd (real_main win32 g w)) = drop 1 (stdin w)"
  by (simp add: real_main_frame real_ctor_frame real_Run_frame dtor_frame cin_get_frame)

lemma only_appends:
  assumes "\<And>w. m w = (r, w\<lparr>trace := trace w @ says ls\<rparr>)"
  shows "m w = (fst (m w'), w\<lparr>trace := trace w @ events_of m\<rparr>)"
    and "list_all is_stdout_write (events_of m)"
  by (simp_all add: assms events_of_def process_start_def list_all_says)

lemma Run_only_appends_and_reads:
  assumes "\<forall>w. run w = (Returned (), cin_get (w\<lparr>trace := trace w @ says ls\<rparr>))"
  shows "run w = (fst (run w'),
                 w\<lparr>trace := trace w @ butlast (events_of run) @ [Read_stdin (next_char w)],
                   stdin := drop 1 (stdin w)\<rparr>)"
    and "list_all is_stdout_write (butlast (events_of run))"
proof -
  have "events_of run = says ls @ [Read_stdin None]"
    by (simp add: events_of_def assms cin_get_frame process_start_def next_char_def)
  then have "butlast (events_of run) = says ls"
    by (simp add: butlast_append)
  then show "run w = (fst (run w'),
                 w\<lparr>trace := trace w @ butlast (events_of run) @ [Read_stdin (next_char w)],
                   stdin := drop 1 (stdin w)\<rparr>)"
    and "list_all is_stdout_write (butlast (events_of run))"
    by (simp_all add: assms cin_get_frame list_all_says next_char_def)
qed

lemma stub_ctor_only_appends:
  "SimpleWebRTCClient_ctor win32 w =
     (Returned (), w\<lparr>trace := trace w @
        trace (snd (SimpleWebRTCClient_ctor win32 (process_start [] (wsa_result w))))\<rparr>)"
  by (simp add: stub_ctor_frame process_start_def)

lemma real_ctor_only_appends:
  "RealWebRTCClient_ctor win32 w =
     (Returned (), w\<lparr>trace := trace w @
        trace (snd (RealWebRTCClient_ctor win32 (process_start [] (wsa_result w))))\<rparr>)"
  by (simp add: real_ctor_frame process_start_def)

lemma try_block_throws:
  "(\<exists>e. fst (and_then c (\<lambda>_ w. case r w of (x, w') \<Rightarrow> (x, d w')) w) = Threw e) =
     ((\<exists>e. fst (c w) = Threw e) \<or> (\<exists>e. fst (r (snd (c w))) = Threw e))"
  by (cases "c w"; cases "fst (c w)"; cases "r (snd (c w))")
     (auto simp add: and_then_def)


section \<open>The claims of the specification\<close>

text \<open>
  Claim C1, as amended. The standard output of a run does not depend on the input, and
  not on the guarded text either; it is fixed by the build and, on a Windows build, by
  whether \<open>WSAStartup\<close> succeeded: two runs of the same build in which \<open>WSAStartup\<close>
  fared alike (so any two runs of a build without \<open>_WIN32\<close>) write the same bytes. In
  every run the last line written is the prompt.
\<close>

theorem stdout_fixed_for_build_and_winsock:
  "(win32 \<longrightarrow> (rc1 = 0) = (rc2 = 0)) \<Longrightarrow>
     stdout_of (trace (snd (stub_main win32 (process_start input1 rc1)))) =
       stdout_of (trace (snd (stub_main win32 (process_start input2 rc2))))
   \<and> stdout_of (trace (snd (real_main win32 g1 (process_start input1 rc1)))) =
       stdout_of (trace (snd (real_main win32 g2 (process_start input2 rc2))))
   \<and> last (lines_of (stdout_of (trace (snd (stub_main win32 (process_start input1 rc1))))))
       = ''Press Enter to exit...''
   \<and> last (lines_of (stdout_of (trace (snd (real_main win32 g1 (process_start input1 rc1))))))
       = ''Press Enter to exit...''"
proof -
  assume h: "win32 \<longrightarrow> (rc1 = 0) = (rc2 = 0)"
  have stub_same: "(if win32 then (if rc1 \<noteq> 0 then x else y) else z) =
                   (if win32 then (if rc2 \<noteq> 0 then x else y) else z)"
    for x y z :: "string list"
    using h by auto
  have real_same: "(if win32 \<and> rc1 \<noteq> 0 then x else y) = (if win32 \<and> rc2 \<noteq> 0 then x else y)"
    for x y :: "string list"
    using h by auto
  have start: "trace (process_start input rc) = []" "wsa_result (process_start input rc) = rc"
    for input rc
    by (simp_all add: process_start_def)
  have stub_eq: "stdout_of (trace (snd (stub_main win32 (process_start input1 rc1)))) =
        stdout_of (trace (snd (stub_main win32 (process_start input2 rc2))))"
    by (simp only: stub_main_stdout start stub_same)
  have real_eq: "stdout_of (trace (snd (real_main win32 g1 (process_start input1 rc1)))) =
        stdout_of (trace (snd (real_main win32 g2 (process_start input2 rc2))))"
    by (simp only: real_main_stdout start real_same)
  have stub_last:
    "last (lines_of (stdout_of (trace (snd (stub_main win32 (process_start input1 rc1))))))
       = ''Press Enter to exit...''"
    using last_line_of_script[OF stub_main_stdout[of win32 "process_start input1 rc1"]]
    by (simp add: start)
  have real_last:
    "last (lines_of (stdout_of (trace (snd (real_main win32 g1 (process_start input1 rc1))))))
       = ''Press Enter to exit...''"
    using last_line_of_script[OF real_main_stdout[of win32 g1 "process_start input1 rc1"]]
    by (simp add: start)
  show ?thesis
    by (intro conjI) (fact stub_eq real_eq stub_last real_last)+
qed

text \<open>An instance: a Windows build, \<open>WSAStartup\<close> succeeding in both runs, different
  inputs and different guarded text.\<close>

theorem stdout_fixed_for_build_and_winsock_witness:
  "stdout_of (trace (snd (stub_main True (process_start ''a'' 0)))) =
     stdout_of (trace (snd (stub_main True (process_start ''b'' 0))))
   \<and> stdout_of (trace (snd (real_main True throwing_code (process_start ''a'' 0)))) =
     stdout_of (trace (snd (real_main True failing_code (process_start ''b'' 0))))
   \<and> last (lines_of (stdout_of (trace (snd (stub_main True (process_start ''a'' 0))))))
       = ''Press Enter to exit...''
   \<and> last (lines_of (stdout_of (trace (snd (real_main True throwing_code (process_start ''a'' 0))))))
       = ''Press Enter to exit...''"
  by (rule stdout_fixed_for_build_and_winsock) simp

text \<open>
  As stated, C1 asks for the same output in every run. On a Windows build the constructor
  returns early when \<open>WSAStartup\<close> fails (here with \<open>WSASYSNOTREADY\<close>, 10091), and two
  lines of the output are missing.
\<close>

theorem stdout_differs_when_winsock_fails:
  "stdout_of (trace (snd (stub_main True (process_start [CHR 0x0A] 0)))) \<noteq>
   stdout_of (trace (snd (stub_main True (process_start [CHR 0x0A] 10091))))"
  by (simp add: stub_main_stdout process_start_def stdout_of_says)

text \<open>
  Claim C2. \<open>Run\<close> calls its operations in one fixed order and then prints the closing
  banner, prints the prompt and reads a character. For every world in which \<open>Run\<close>
  starts, what it adds to the trace is: its three heading lines, then what each operation
  does, in the order CreatePeerConnection, AddVideoStream, AddAudioStream,
  StartVideoCapture, CreateOffer, RenderVideo (with InitializeWebRTC before them in the
  real client), then the closing banner, the prompt, and last the read of one character.
  \<open>Run\<close> returns normally.
\<close>

theorem Run_calls_operations_in_fixed_order:
  "SimpleWebRTCClient_Run w =
     (Returned (),
      w\<lparr>trace := trace w
          @ says [[CHR 0x0A] @ ''=== WebRTC Native Client Running ==='',
                  ''This demonstrates the structure of a native WebRTC application'',
                  ''====================================='' @ [CHR 0x0A]]
          @ events_of SimpleWebRTCClient_CreatePeerConnection
          @ events_of SimpleWebRTCClient_AddVideoStream
          @ events_of SimpleWebRTCClient_AddAudioStream
          @ events_of SimpleWebRTCClient_StartVideoCapture
          @ events_of SimpleWebRTCClient_CreateOffer
          @ events_of SimpleWebRTCClient_RenderVideo
          @ says [[CHR 0x0A] @ ''=== Native WebRTC Features Demonstrated ==='',
                  [CHR 0xE2, CHR 0x9C, CHR 0x85] @ '' PeerConnection creation'',
                  [CHR 0xE2, CHR 0x9C, CHR 0x85] @ '' Video stream handling'',
                  [CHR 0xE2, CHR 0x9C, CHR 0x85] @ '' Audio stream handling'',
                  [CHR 0xE2, CHR 0x9C, CHR 0x85] @ '' Video capture'',
                  [CHR 0xE2, CHR 0x9C, CHR 0x85] @ '' SDP offer/answer'',
                  [CHR 0xE2, CHR 0x9C, CHR 0x85] @ '' Video rendering'',
                  [CHR 0xE2, CHR 0x9C, CHR 0x85] @ '' Signaling protocol'',
                  ''=========================================='' @ [CHR 0x0A]]
          @ says [''Press Enter to exit...'']
          @ [Read_stdin (next_char w)],
        stdin := drop 1 (stdin w)\<rparr>)
   \<and> RealWebRTCClient_Run win32 g w =
     (Returned (),
      w\<lparr>trace := trace w
          @ says [[CHR 0x0A] @ ''=== Real WebRTC Native Client Running ==='',
                  ''This uses actual WebRTC C++ source code patterns'',
                  ''========================================'' @ [CHR 0x0A]]
          @ events_of (RealWebRTCClient_InitializeWebRTC win32 g)
          @ events_of (RealWebRTCClient_CreatePeerConnection win32 g)
          @ events_of (RealWebRTCClient_AddVideoStream win32 g)
          @ events_of (RealWebRTCClient_AddAudioStream win32 g)
          @ events_of (RealWebRTCClient_StartVideoCapture win32 g)
          @ events_of (RealWebRTCClient_CreateOffer win32 g)
          @ events_of RealWebRTCClient_RenderVideo
          @ says [[CHR 0x0A] @ ''=== Real WebRTC Features Demonstrated ==='',
                  [CHR 0xC3, CHR 0xB0, CHR 0xC5, CHR 0xB8, CHR 0xC5, CHR 0xBD, CHR 0xC2, CHR 0xAF] @ '' Real WebRTC source code patterns demonstrated'',
                  [CHR 0xC3, CHR 0xB0, CHR 0xC5, CHR 0xB8, CHR 0xE2, CHR 0x80, CHR 0x9C, CHR 0xE2, CHR 0x80, CHR 0xB9] @ '' Shows actual WebRTC API usage from conductor.cc'',
                  [CHR 0xC3, CHR 0xB0, CHR 0xC5, CHR 0xB8, CHR 0xE2, CHR 0x80, CHR 0x9D, CHR 0xC2, CHR 0xA7] @ '' Demonstrates proper WebRTC initialization flow'',
                  [CHR 0xC3, CHR 0xB0, CHR 0xC5, CHR 0xB8, CHR 0xE2, CHR 0x80, CHR 0x9C, CHR 0xC2, CHR 0xB9] @ '' Shows video/audio capture and track creation'',
                  [CHR 0xC3, CHR 0xB0, CHR 0xC5, CHR 0xB8, CHR 0xC5, CHR 0x92] @ '' Demonstrates SDP offer/answer and ICE handling'',
                  [CHR 0xC3, CHR 0xB0, CHR 0xC5, CHR 0xB8, CHR 0xE2, CHR 0x80, CHR 0x99, CHR 0xC2, CHR 0xA1] @ '' To use real WebRTC, build with WebRTC libraries'',
                  ''===================================='' @ [CHR 0x0A]]
          @ says [''Press Enter to exit...'']
          @ [Read_stdin (next_char w)],
        stdin := drop 1 (stdin w)\<rparr>)"
  by (simp add: stub_Run_frame real_Run_frame cin_get_frame next_char_def says_def)

text \<open>
  Claim C3. \<open>WEBRTC_HEADERS_AVAILABLE\<close> is 0 on every platform, so every method of
  \<open>RealWebRTCClient\<close> with a guarded branch runs its fallback branch and nothing of
  the guarded text is run, on either platform: the six operations print the names of the
  library calls and return as the fallback does, whatever the guarded text would do; the
  constructor prints the \<open>DEMO\<close> lines, with and without \<open>_WIN32\<close>; \<open>Run\<close>
  prints the closing banner of the fallback; the banners of the guarded branches
  (\<open>Running with REAL WebRTC libraries\<close>, \<open>Using REAL WebRTC C++ libraries\<close>) occur
  in the output of no run; and \<open>Run\<close> and the whole program do not depend on the
  guarded text.
\<close>

theorem flag_is_zero_and_fallback_runs:
  "WEBRTC_HEADERS_AVAILABLE win32 = 0
   \<and> RealWebRTCClient_InitializeWebRTC win32 g w =
       (Returned True, w\<lparr>trace := trace w @
          says [''Initializing WebRTC...'',
                ''DEMO: WebRTC initialization simulated'',
                ''  - CreateDefaultTaskQueueFactory()'',
                ''  - CreateEnvironment()'',
                ''  - CreateModularPeerConnectionFactory()'',
                ''  - CreateBuiltinAudioEncoderFactory()'',
                ''  - CreateBuiltinVideoEncoderFactory()'']\<rparr>)
   \<and> RealWebRTCClient_CreatePeerConnection win32 g w =
       (Returned True, w\<lparr>trace := trace w @
          says [''Creating PeerConnection...'',
                ''DEMO: PeerConnection creation simulated'',
                ''  - PeerConnectionInterface::RTCConfiguration config'',
                ''  - config.sdp_semantics = SdpSemantics::kUnifiedPlan'',
                ''  - peer_connection_factory_->CreatePeerConnection()'']\<rparr>)
   \<and> RealWebRTCClient_AddVideoStream win32 g w =
       (Returned True, w\<lparr>trace := trace w @
          says [''Adding video stream...'',
                ''DEMO: Video stream addition simulated'',
                ''  - VideoCaptureFactory::CreateDeviceInfo()'',
                ''  - CreateVideoCapturer()'',
                ''  - peer_connection_factory_->CreateVideoSource()'',
                ''  - peer_connection_factory_->CreateVideoTrack()'',
                ''  - peer_connection_->AddTrack()'']\<rparr>)
   \<and> RealWebRTCClient_AddAudioStream win32 g w =
       (Returned True, w\<lparr>trace := trace w @
          says [''Adding audio stream...'',
                ''DEMO: Audio stream addition simulated'',
                ''  - peer_connection_factory_->CreateAudioSource()'',
                ''  - peer_connection_factory_->CreateAudioTrack()'',
                ''  - peer_connection_->AddTrack()'']\<rparr>)
   \<and> RealWebRTCClient_CreateOffer win32 g w =
       (Returned (), w\<lparr>trace := trace w @
          says [''Creating offer...'',
                ''DEMO: SDP offer creation simulated'',
                ''  - peer_connection_->CreateOffer()'',
                ''  - OnSuccess() callback with SessionDescriptionInterface'',
                ''  - peer_connection_->SetLocalDescription()'']\<rparr>)
   \<and> RealWebRTCClient_StartVideoCapture win32 g w =
       (Returned (), w\<lparr>trace := trace w @
          says [''Starting video capture...'',
                ''DEMO: Video capture initialization simulated'',
                ''  - VideoCaptureFactory::CreateDeviceInfo()'',
                ''  - device_info->NumberOfDevices()'',
                ''  - device_info->GetDeviceName()'',
                ''  - CreateDeviceCapturer() or CreateSquareFrameGenerator()'']\<rparr>)
   \<and> RealWebRTCClient_ctor False w =
       (Returned (), w\<lparr>trace := trace w @
          says [''=== Real WebRTC Native Client ==='',
                ''Running in DEMO mode (WebRTC headers not available)'',
                ''Showing real WebRTC source code patterns'',
                ''WebRTC Client initialized!'']\<rparr>)
   \<and> RealWebRTCClient_ctor win32 w =
       (Returned (), w\<lparr>trace := trace w @
          says [''=== Real WebRTC Native Client ===''] @
          (if win32 then
             Call_WSAStartup (wsa_result w) #
               (if wsa_result w \<noteq> 0 then
                  [Write_stderr (''Failed to initialize Windows networking'' @ [CHR 0x0A])]
                else says [''Windows networking initialized'',
                           ''Running in DEMO mode (WebRTC headers not available)'',
                           ''Showing real WebRTC source code patterns'',
                           ''WebRTC Client initialized!''])
           else says [''Running in DEMO mode (WebRTC headers not available)'',
                      ''Showing real WebRTC source code patterns'',
                      ''WebRTC Client initialized!''])\<rparr>)
   \<and> RealWebRTCClient_Run win32 g w =
       (Returned (), cin_get (w\<lparr>trace := trace w @
          says [[CHR 0x0A] @ ''=== Real WebRTC Native Client Running ==='',
                ''This uses actual WebRTC C++ source code patterns'',
                ''========================================'' @ [CHR 0x0A],
                ''Initializing WebRTC...'',
                ''DEMO: WebRTC initialization simulated'',
                ''  - CreateDefaultTaskQueueFactory()'',
                ''  - CreateEnvironment()'',
                ''  - CreateModularPeerConnectionFactory()'',
                ''  - CreateBuiltinAudioEncoderFactory()'',
                ''  - CreateBuiltinVideoEncoderFactory()'',
                ''Creating PeerConnection...'',
                ''DEMO: PeerConnection creation simulated'',
                ''  - PeerConnectionInterface::RTCConfiguration config'',
                ''  - config.sdp_semantics = SdpSemantics::kUnifiedPlan'',
                ''  - peer_connection_factory_->CreatePeerConnection()'',
                ''Adding video stream...'',
                ''DEMO: Video stream addition simulated'',
                ''  - VideoCaptureFactory::CreateDeviceInfo()'',
                ''  - CreateVideoCapturer()'',
                ''  - peer_connection_factory_->CreateVideoSource()'',
                ''  - peer_connection_factory_->CreateVideoTrack()'',
                ''  - peer_connection_->AddTrack()'',
                ''Adding audio stream...'',
                ''DEMO: Audio stream addition simulated'',
                ''  - peer_connection_factory_->CreateAudioSource()'',
                ''  - peer_connection_factory_->CreateAudioTrack()'',
                ''  - peer_connection_->AddTrack()'',
                ''Starting video capture...'',
                ''DEMO: Video capture initialization simulated'',
                ''  - VideoCaptureFactory::CreateDeviceInfo()'',
                ''  - device_info->NumberOfDevices()'',
                ''  - device_info->GetDeviceName()'',
                ''  - CreateDeviceCapturer() or CreateSquareFrameGenerator()'',
                ''Creating offer...'',
                ''DEMO: SDP offer creation simulated'',
                ''  - peer_connection_->CreateOffer()'',
                ''  - OnSuccess() callback with SessionDescriptionInterface'',
                ''  - peer_connection_->SetLocalDescription()'',
                ''Rendering video...'',
                ''Video rendering initialized!'',
                [CHR 0x0A] @ ''=== Real WebRTC Features Demonstrated ==='',
                [CHR 0xC3, CHR 0xB0, CHR 0xC5, CHR 0xB8, CHR 0xC5, CHR 0xBD, CHR 0xC2, CHR 0xAF] @ '' Real WebRTC source code patterns demonstrated'',
                [CHR 0xC3, CHR 0xB0, CHR 0xC5, CHR 0xB8, CHR 0xE2, CHR 0x80, CHR 0x9C, CHR 0xE2, CHR 0x80, CHR 0xB9] @ '' Shows actual WebRTC API usage from conductor.cc'',
                [CHR 0xC3, CHR 0xB0, CHR 0xC5, CHR 0xB8, CHR 0xE2, CHR 0x80, CHR 0x9D, CHR 0xC2, CHR 0xA7] @ '' Demonstrates proper WebRTC initialization flow'',
                [CHR 0xC3, CHR 0xB0, CHR 0xC5, CHR 0xB8, CHR 0xE2, CHR 0x80, CHR 0x9C, CHR 0xC2, CHR 0xB9] @ '' Shows video/audio capture and track creation'',
                [CHR 0xC3, CHR 0xB0, CHR 0xC5, CHR 0xB8, CHR 0xC5, CHR 0x92] @ '' Demonstrates SDP offer/answer and ICE handling'',
                [CHR 0xC3, CHR 0xB0, CHR 0xC5, CHR 0xB8, CHR 0xE2, CHR 0x80, CHR 0x99, CHR 0xC2, CHR 0xA1] @ '' To use real WebRTC, build with WebRTC libraries'',
                ''===================================='' @ [CHR 0x0A],
                ''Press Enter to exit...'']\<rparr>))
   \<and> \<not> sublist ''REAL WebRTC''
         (stdout_of (trace (snd (real_main win32 g (process_start input rc)))))
   \<and> RealWebRTCClient_Run win32 g w = RealWebRTCClient_Run win32 g' w
   \<and> real_main win32 g w = real_main win32 g' w"
proof -
  have run: "RealWebRTCClient_Run win32 g w = RealWebRTCClient_Run win32 g' w"
    by (simp add: real_Run_frame real_events)
  have main: "real_main win32 g w = real_main win32 g' w"
    by (simp add: real_main_frame real_Run_frame real_events)
  have fallback: "RealWebRTCClient_Run win32 g w =
       (Returned (), cin_get (w\<lparr>trace := trace w @
          says [[CHR 0x0A] @ ''=== Real WebRTC Native Client Running ==='',
                ''This uses actual WebRTC C++ source code patterns'',
                ''========================================'' @ [CHR 0x0A],
                ''Initializing WebRTC...'',
                ''DEMO: WebRTC initialization simulated'',
                ''  - CreateDefaultTaskQueueFactory()'',
                ''  - CreateEnvironment()'',
                ''  - CreateModularPeerConnectionFactory()'',
                ''  - CreateBuiltinAudioEncoderFactory()'',
                ''  - CreateBuiltinVideoEncoderFactory()'',
                ''Creating PeerConnection...'',
                ''DEMO: PeerConnection creation simulated'',
                ''  - PeerConnectionInterface::RTCConfiguration config'',
                ''  - config.sdp_semantics = SdpSemantics::kUnifiedPlan'',
                ''  - peer_connection_factory_->CreatePeerConnection()'',
                ''Adding video stream...'',
                ''DEMO: Video stream addition simulated'',
                ''  - VideoCaptureFactory::CreateDeviceInfo()'',
                ''  - CreateVideoCapturer()'',
                ''  - peer_connection_factory_->CreateVideoSource()'',
                ''  - peer_connection_factory_->CreateVideoTrack()'',
                ''  - peer_connection_->AddTrack()'',
                ''Adding audio stream...'',
                ''DEMO: Audio stream addition simulated'',
                ''  - peer_connection_factory_->CreateAudioSource()'',
                ''  - peer_connection_factory_->CreateAudioTrack()'',
                ''  - peer_connection_->AddTrack()'',
                ''Starting video capture...'',
                ''DEMO: Video capture initialization simulated'',
                ''  - VideoCaptureFactory::CreateDeviceInfo()'',
                ''  - device_info->NumberOfDevices()'',
                ''  - device_info->GetDeviceName()'',
                ''  - CreateDeviceCapturer() or CreateSquareFrameGenerator()'',
                ''Creating offer...'',
                ''DEMO: SDP offer creation simulated'',
                ''  - peer_connection_->CreateOffer()'',
                ''  - OnSuccess() callback with SessionDescriptionInterface'',
                ''  - peer_connection_->SetLocalDescription()'',
                ''Rendering video...'',
                ''Video rendering initialized!'',
                [CHR 0x0A] @ ''=== Real WebRTC Features Demonstrated ==='',
                [CHR 0xC3, CHR 0xB0, CHR 0xC5, CHR 0xB8, CHR 0xC5, CHR 0xBD, CHR 0xC2, CHR 0xAF] @ '' Real WebRTC source code patterns demonstrated'',
                [CHR 0xC3, CHR 0xB0, CHR 0xC5, CHR 0xB8, CHR 0xE2, CHR 0x80, CHR 0x9C, CHR 0xE2, CHR 0x80, CHR 0xB9] @ '' Shows actual WebRTC API usage from conductor.cc'',
                [CHR 0xC3, CHR 0xB0, CHR 0xC5, CHR 0xB8, CHR 0xE2, CHR 0x80, CHR 0x9D, CHR 0xC2, CHR 0xA7] @ '' Demonstrates proper WebRTC initialization flow'',
                [CHR 0xC3, CHR 0xB0, CHR 0xC5, CHR 0xB8, CHR 0xE2, CHR 0x80, CHR 0x9C, CHR 0xC2, CHR 0xB9] @ '' Shows video/audio capture and track creation'',
                [CHR 0xC3, CHR 0xB0, CHR 0xC5, CHR 0xB8, CHR 0xC5, CHR 0x92] @ '' Demonstrates SDP offer/answer and ICE handling'',
                [CHR 0xC3, CHR 0xB0, CHR 0xC5, CHR 0xB8, CHR 0xE2, CHR 0x80, CHR 0x99, CHR 0xC2, CHR 0xA1] @ '' To use real WebRTC, build with WebRTC libraries'',
                ''===================================='' @ [CHR 0x0A],
                ''Press Enter to exit...'']\<rparr>))"
    by (simp add: real_Run_frame real_events says_def)
  have absent: "\<not> sublist ''REAL WebRTC''
         (stdout_of (trace (snd (real_main win32 g (process_start input rc)))))"
    by (simp add: real_main_stdout process_start_def stdout_of_simps sublist_says
          sublist_Cons_right)
  show ?thesis
    by (intro conjI)
       (rule WEBRTC_HEADERS_AVAILABLE_zero real_frames real_ctor_not_win32 real_ctor_frame
          fallback run main absent)+
qed

text \<open>
  Claim C4. The exit code of either program is 0 or 1 and nothing else, and it is 1 only
  when an exception comes out of the construction of the client or out of \<open>Run\<close>.
  Each \<open>main\<close> is its three heading lines followed by the handler around its \<open>try\<close>
  block; its exit code is 1 exactly when that block throws, which is exactly when the
  constructor throws or \<open>Run\<close>, called after the constructor, throws; and it is 0
  exactly when the block returns. The handler behaves so around any block.
\<close>

theorem exit_code_is_zero_or_one:
  "(fst (catch_exception try_block w) = 0 \<or> fst (catch_exception try_block w) = 1)
   \<and> (fst (catch_exception try_block w) = 1) = (\<exists>e. fst (try_block w) = Threw e)
   \<and> (fst (stub_main win32 w) = 0 \<or> fst (stub_main win32 w) = 1)
   \<and> (fst (real_main win32 g w) = 0 \<or> fst (real_main win32 g w) = 1)
   \<and> stub_main win32 w = catch_exception (stub_main_try win32)
         (w\<lparr>trace := trace w @
            says [[CHR 0xF0, CHR 0x9F, CHR 0x8E, CHR 0xA5] @ '' WebRTC Native Video Streaming Client'',
                  ''Using WebRTC C++ Source Code (Stub Version)'',
                  ''=========================================='' @ [CHR 0x0A]]\<rparr>)
   \<and> (fst (stub_main win32 w) = 1) =
       (\<exists>e. fst (stub_main_try win32
         (w\<lparr>trace := trace w @
            says [[CHR 0xF0, CHR 0x9F, CHR 0x8E, CHR 0xA5] @ '' WebRTC Native Video Streaming Client'',
                  ''Using WebRTC C++ Source Code (Stub Version)'',
                  ''=========================================='' @ [CHR 0x0A]]\<rparr>)) = Threw e)
   \<and> (fst (stub_main win32 w) = 0) =
       (fst (stub_main_try win32
         (w\<lparr>trace := trace w @
            says [[CHR 0xF0, CHR 0x9F, CHR 0x8E, CHR 0xA5] @ '' WebRTC Native Video Streaming Client'',
                  ''Using WebRTC C++ Source Code (Stub Version)'',
                  ''=========================================='' @ [CHR 0x0A]]\<rparr>)) = Returned ())
   \<and> (fst (stub_main win32 w) = 1) =
       ((\<exists>e. fst (SimpleWebRTCClient_ctor win32
         (w\<lparr>trace := trace w @
            says [[CHR 0xF0, CHR 0x9F, CHR 0x8E, CHR 0xA5] @ '' WebRTC Native Video Streaming Client'',
                  ''Using WebRTC C++ Source Code (Stub Version)'',
                  ''=========================================='' @ [CHR 0x0A]]\<rparr>)) = Threw e)
        \<or> (\<exists>e. fst (SimpleWebRTCClient_Run (snd (SimpleWebRTCClient_ctor win32
         (w\<lparr>trace := trace w @
            says [[CHR 0xF0, CHR 0x9F, CHR 0x8E, CHR 0xA5] @ '' WebRTC Native Video Streaming Client'',
                  ''Using WebRTC C++ Source Code (Stub Version)'',
                  ''=========================================='' @ [CHR 0x0A]]\<rparr>)))) = Threw e))
   \<and> real_main win32 g w = catch_exception (real_main_try win32 g)
         (w\<lparr>trace := trace w @
            says [[CHR 0xC3, CHR 0xB0, CHR 0xC5, CHR 0xB8, CHR 0xC5, CHR 0xBD, CHR 0xC2, CHR 0xA5] @ '' Real WebRTC Native Video Streaming Client'',
                  ''Using WebRTC C++ Source Code Patterns'',
                  ''=========================================='' @ [CHR 0x0A]]\<rparr>)
   \<and> (fst (real_main win32 g w) = 1) =
       (\<exists>e. fst (real_main_try win32 g
         (w\<lparr>trace := trace w @
            says [[CHR 0xC3, CHR 0xB0, CHR 0xC5, CHR 0xB8, CHR 0xC5, CHR 0xBD, CHR 0xC2, CHR 0xA5] @ '' Real WebRTC Native Video Streaming Client'',
                  ''Using WebRTC C++ Source Code Patterns'',
                  ''=========================================='' @ [CHR 0x0A]]\<rparr>)) = Threw e)
   \<and> (fst (real_main win32 g w) = 0) =
       (fst (real_main_try win32 g
         (w\<lparr>trace := trace w @
            says [[CHR 0xC3, CHR 0xB0, CHR 0xC5, CHR 0xB8, CHR 0xC5, CHR 0xBD, CHR 0xC2, CHR 0xA5] @ '' Real WebRTC Native Video Streaming Client'',
                  ''Using WebRTC C++ Source Code Patterns'',
                  ''=========================================='' @ [CHR 0x0A]]\<rparr>)) = Returned ())
   \<and> (fst (real_main win32 g w) = 1) =
       ((\<exists>e. fst (RealWebRTCClient_ctor win32
         (w\<lparr>trace := trace w @
            says [[CHR 0xC3, CHR 0xB0, CHR 0xC5, CHR 0xB8, CHR 0xC5, CHR 0xBD, CHR 0xC2, CHR 0xA5] @ '' Real WebRTC Native Video Streaming Client'',
                  ''Using WebRTC C++ Source Code Patterns'',
                  ''=========================================='' @ [CHR 0x0A]]\<rparr>)) = Threw e)
        \<or> (\<exists>e. fst (RealWebRTCClient_Run win32 g (snd (RealWebRTCClient_ctor win32
         (w\<lparr>trace := trace w @
            says [[CHR 0xC3, CHR 0xB0, CHR 0xC5, CHR 0xB8, CHR 0xC5, CHR 0xBD, CHR 0xC2, CHR 0xA5] @ '' Real WebRTC Native Video Streaming Client'',
                  ''Using WebRTC C++ Source Code Patterns'',
                  ''=========================================='' @ [CHR 0x0A]]\<rparr>)))) = Threw e))"
proof -
  have zero_or_one: "fst (catch_exception b v) = 0 \<or> fst (catch_exception b v) = 1" for b v
    by (simp add: catch_exception_def split: prod.split outcome.split)
  have one: "(fst (catch_exception b v) = 1) = (\<exists>e. fst (b v) = Threw e)" for b v
    by (cases "b v"; cases "fst (b v)") (auto simp add: catch_exception_def)
  have zero: "(fst (catch_exception b v) = 0) = (fst (b v) = Returned ())" for b v
    by (cases "b v"; cases "fst (b v)") (auto simp add: catch_exception_def)
  have stub: "stub_main win32 w = catch_exception (stub_main_try win32)
         (w\<lparr>trace := trace w @
            says [[CHR 0xF0, CHR 0x9F, CHR 0x8E, CHR 0xA5] @ '' WebRTC Native Video Streaming Client'',
                  ''Using WebRTC C++ Source Code (Stub Version)'',
                  ''=========================================='' @ [CHR 0x0A]]\<rparr>)"
    by (simp add: stub_main_def cout_endl_trace says_def)
  have real: "real_main win32 g w = catch_exception (real_main_try win32 g)
         (w\<lparr>trace := trace w @
            says [[CHR 0xC3, CHR 0xB0, CHR 0xC5, CHR 0xB8, CHR 0xC5, CHR 0xBD, CHR 0xC2, CHR 0xA5] @ '' Real WebRTC Native Video Streaming Client'',
                  ''Using WebRTC C++ Source Code Patterns'',
                  ''=========================================='' @ [CHR 0x0A]]\<rparr>)"
    by (simp add: real_main_def cout_endl_trace says_def)
  have stub_try: "(\<exists>e. fst (stub_main_try win32 v) = Threw e) =
       ((\<exists>e. fst (SimpleWebRTCClient_ctor win32 v) = Threw e)
        \<or> (\<exists>e. fst (SimpleWebRTCClient_Run (snd (SimpleWebRTCClient_ctor win32 v))) = Threw e))"
    for v
    unfolding stub_main_try_def by (rule try_block_throws)
  have real_try: "(\<exists>e. fst (real_main_try win32 g v) = Threw e) =
       ((\<exists>e. fst (RealWebRTCClient_ctor win32 v) = Threw e)
        \<or> (\<exists>e. fst (RealWebRTCClient_Run win32 g (snd (RealWebRTCClient_ctor win32 v))) = Threw e))"
    for v
    unfolding real_main_try_def by (rule try_block_throws)
  show ?thesis
    unfolding stub real
    by (intro conjI)
       (rule zero_or_one one zero refl trans[OF one stub_try] trans[OF one real_try])+
qed

text \<open>
  Claim C5. The handler in \<open>main\<close> is never reached: the constructor, \<open>Run\<close> and the
  whole \<open>try\<close> block return normally in every world and for every behaviour of the
  guarded text, so the exit code is 0; all that a run writes to standard error is the
  complaint of the constructor when \<open>WSAStartup\<close> fails on a Windows build, and
  \<open>Error: \<close> occurs nowhere in it.
\<close>

theorem catch_handler_is_never_reached:
  "fst (SimpleWebRTCClient_ctor win32 w) = Returned ()
   \<and> fst (SimpleWebRTCClient_Run w) = Returned ()
   \<and> fst (stub_main_try win32 w) = Returned ()
   \<and> fst (stub_main win32 w) = 0
   \<and> fst (RealWebRTCClient_ctor win32 w) = Returned ()
   \<and> fst (RealWebRTCClient_Run win32 g w) = Returned ()
   \<and> fst (real_main_try win32 g w) = Returned ()
   \<and> fst (real_main win32 g w) = 0
   \<and> stderr_of (trace (snd (stub_main win32 w))) =
       stderr_of (trace w) @
         (if win32 \<and> wsa_result w \<noteq> 0
          then ''Failed to initialize Windows networking'' @ [CHR 0x0A] else [])
   \<and> stderr_of (trace (snd (real_main win32 g w))) =
       stderr_of (trace w) @
         (if win32 \<and> wsa_result w \<noteq> 0
          then ''Failed to initialize Windows networking'' @ [CHR 0x0A] else [])
   \<and> \<not> sublist ''Error: '' (stderr_of (trace (snd (stub_main win32 (process_start input rc)))))
   \<and> \<not> sublist ''Error: ''
         (stderr_of (trace (snd (real_main win32 g (process_start input rc)))))"
proof -
  have stub_err: "stderr_of (trace (snd (stub_main win32 w))) =
       stderr_of (trace w) @
         (if win32 \<and> wsa_result w \<noteq> 0
          then ''Failed to initialize Windows networking'' @ [CHR 0x0A] else [])" for w
    by (cases win32; cases "wsa_result w = 0")
       (simp_all add: stub_main_frame stub_ctor_frame stub_Run_frame dtor_frame cin_get_frame
          stderr_of_append stderr_of_simps stderr_of_says stub_events)
  have real_err: "stderr_of (trace (snd (real_main win32 g w))) =
       stderr_of (trace w) @
         (if win32 \<and> wsa_result w \<noteq> 0
          then ''Failed to initialize Windows networking'' @ [CHR 0x0A] else [])" for w
    by (cases win32; cases "wsa_result w = 0")
       (simp_all add: real_main_frame real_ctor_frame real_Run_frame dtor_frame cin_get_frame
          stderr_of_append stderr_of_simps stderr_of_says real_events)
  have no_error: "\<not> sublist ''Error: ''
      (if b then ''Failed to initialize Windows networking'' @ [CHR 0x0A] else [])" for b
    by (simp add: sublist_Cons_right)
  have start: "stderr_of (trace (process_start input rc)) = []"
    by (simp add: process_start_def stderr_of_simps)
  have c1: "fst (SimpleWebRTCClient_ctor win32 w) = Returned ()"
    by (simp add: stub_ctor_frame)
  have c2: "fst (SimpleWebRTCClient_Run w) = Returned ()"
    by (simp add: stub_Run_frame)
  have c3: "fst (stub_main_try win32 w) = Returned ()"
    by (simp add: stub_main_try_def and_then_def stub_ctor_frame stub_Run_frame)
  have c4: "fst (stub_main win32 w) = 0"
    by (simp add: stub_main_frame)
  have c5: "fst (RealWebRTCClient_ctor win32 w) = Returned ()"
    by (simp add: real_ctor_frame)
  have c6: "fst (RealWebRTCClient_Run win32 g w) = Returned ()"
    by (simp add: real_Run_frame)
  have c7: "fst (real_main_try win32 g w) = Returned ()"
    by (simp add: real_main_try_def and_then_def real_ctor_frame real_Run_frame)
  have c8: "fst (real_main win32 g w) = 0"
    by (simp add: real_main_frame)
  have c9: "\<not> sublist ''Error: ''
      (stderr_of (trace (snd (stub_main win32 (process_start input rc)))))"
    by (simp only: stub_err start append_Nil no_error not_False_eq_True)
  have c10: "\<not> sublist ''Error: ''
      (stderr_of (trace (snd (real_main win32 g (process_start input rc)))))"
    by (simp only: real_err start append_Nil no_error not_False_eq_True)
  show ?thesis
    by (intro conjI) (fact c1 c2 c3 c4 c5 c6 c7 c8 c9 c10 stub_err real_err)+
qed

text \<open>
  Claim C6, as amended. In the code that is compiled no method looks at a handle. Each
  operation of either client (and \<open>InitializeWebRTC\<close>) is a fixed list of output
  statements: it prints the same lines in every world and returns the same value;
  \<open>HandleSignaling\<close> prints one line made from its argument; \<open>Run\<close> prints a fixed
  list of lines and then reads. Where \<open>_WIN32\<close> is not defined the constructors are
  fixed lists of output statements too. With \<open>_WIN32\<close> the constructors do branch, on
  the answer of \<open>WSAStartup\<close>: when it is not 0 they complain on standard error and
  print nothing more, otherwise they print the rest of their lines.
\<close>

theorem operations_are_fixed_lists_of_output:
  "(\<exists>ls. \<forall>w. SimpleWebRTCClient_CreatePeerConnection w =
            (Returned True, w\<lparr>trace := trace w @ says ls\<rparr>))
   \<and> (\<exists>ls. \<forall>w. SimpleWebRTCClient_AddVideoStream w =
            (Returned True, w\<lparr>trace := trace w @ says ls\<rparr>))
   \<and> (\<exists>ls. \<forall>w. SimpleWebRTCClient_AddAudioStream w =
            (Returned True, w\<lparr>trace := trace w @ says ls\<rparr>))
   \<and> (\<exists>ls. \<forall>w. SimpleWebRTCClient_CreateOffer w =
            (Returned (), w\<lparr>trace := trace w @ says ls\<rparr>))
   \<and> (\<exists>ls. \<forall>w. SimpleWebRTCClient_StartVideoCapture w =
            (Returned (), w\<lparr>trace := trace w @ says ls\<rparr>))
   \<and> (\<exists>ls. \<forall>w. SimpleWebRTCClient_RenderVideo w =
            (Returned (), w\<lparr>trace := trace w @ says ls\<rparr>))
   \<and> (\<exists>before after. \<forall>message w. SimpleWebRTCClient_HandleSignaling message w =
            (Returned (), w\<lparr>trace := trace w @
               says [before @ take 50 message @ after]\<rparr>))
   \<and> (\<exists>ls. \<forall>w. SimpleWebRTCClient_Run w =
            (Returned (), cin_get (w\<lparr>trace := trace w @ says ls\<rparr>)))
   \<and> (\<exists>ls. \<forall>w. RealWebRTCClient_InitializeWebRTC win32 g w =
            (Returned True, w\<lparr>trace := trace w @ says ls\<rparr>))
   \<and> (\<exists>ls. \<forall>w. RealWebRTCClient_CreatePeerConnection win32 g w =
            (Returned True, w\<lparr>trace := trace w @ says ls\<rparr>))
   \<and> (\<exists>ls. \<forall>w. RealWebRTCClient_AddVideoStream win32 g w =
            (Returned True, w\<lparr>trace := trace w @ says ls\<rparr>))
   \<and> (\<exists>ls. \<forall>w. RealWebRTCClient_AddAudioStream win32 g w =
            (Returned True, w\<lparr>trace := trace w @ says ls\<rparr>))
   \<and> (\<exists>ls. \<forall>w. RealWebRTCClient_CreateOffer win32 g w =
            (Returned (), w\<lparr>trace := trace w @ says ls\<rparr>))
   \<and> (\<exists>ls. \<forall>w. RealWebRTCClient_StartVideoCapture win32 g w =
            (Returned (), w\<lparr>trace := trace w @ says ls\<rparr>))
   \<and> (\<exists>ls. \<forall>w. RealWebRTCClient_RenderVideo w =
            (Returned (), w\<lparr>trace := trace w @ says ls\<rparr>))
   \<and> (\<exists>ls. \<forall>w. RealWebRTCClient_Run win32 g w =
            (Returned (), cin_get (w\<lparr>trace := trace w @ says ls\<rparr>)))
   \<and> (\<exists>ls. \<forall>w. SimpleWebRTCClient_ctor False w =
            (Returned (), w\<lparr>trace := trace w @ says ls\<rparr>))
   \<and> (\<exists>ls. \<forall>w. RealWebRTCClient_ctor False w =
            (Returned (), w\<lparr>trace := trace w @ says ls\<rparr>))
   \<and> (\<exists>first rest. \<forall>w. SimpleWebRTCClient_ctor True w =
            (Returned (), w\<lparr>trace := trace w @ says first @
               Call_WSAStartup (wsa_result w) #
                 (if wsa_result w \<noteq> 0
                  then [Write_stderr (''Failed to initialize Windows networking'' @ [CHR 0x0A])]
                  else says rest)\<rparr>))
   \<and> (\<exists>first rest. \<forall>w. RealWebRTCClient_ctor True w =
            (Returned (), w\<lparr>trace := trace w @ says first @
               Call_WSAStartup (wsa_result w) #
                 (if wsa_result w \<noteq> 0
                  then [Write_stderr (''Failed to initialize Windows networking'' @ [CHR 0x0A])]
                  else says rest)\<rparr>))"
  by (intro conjI exI allI)
     (rule stub_frames real_frames stub_HandleSignaling_frame stub_Run_says real_Run_says
        stub_ctor_not_win32 real_ctor_not_win32 stub_ctor_win32 real_ctor_win32)+

text \<open>
  As stated, C6 allows a method no conditional behaviour but the check of a handle with
  its \<open>not initialized\<close> message. The compiled code has no handle, and on a Windows
  build the constructor behaves in two ways, by the answer of \<open>WSAStartup\<close>: with
  \<open>WSASYSNOTREADY\<close> (10091) it writes its own complaint to standard error and prints
  less than with 0.
\<close>

theorem constructor_branches_on_WSAStartup:
  "stderr_of (trace (snd (SimpleWebRTCClient_ctor True (process_start [] 10091)))) =
     ''Failed to initialize Windows networking'' @ [CHR 0x0A]
   \<and> stderr_of (trace (snd (SimpleWebRTCClient_ctor True (process_start [] 0)))) = []
   \<and> stdout_of (trace (snd (SimpleWebRTCClient_ctor True (process_start [] 10091)))) \<noteq>
       stdout_of (trace (snd (SimpleWebRTCClient_ctor True (process_start [] 0))))"
  by (simp add: stub_ctor_win32 process_start_def stderr_of_append stderr_of_simps
        stderr_of_says stdout_of_append stdout_of_simps stdout_of_says)

text \<open>
  Claim C7, as amended. In either program the read of \<open>Run\<close> comes right after the
  closing banner and the prompt and is the last thing \<open>Run\<close> does; it is the only read
  of the whole program; it takes one character from standard input when there is one and
  none at end of input; the program then ends with exit code 0.
\<close>

theorem one_read_after_the_prompt:
  "suffix (says [''=========================================='' @ [CHR 0x0A],
                 ''Press Enter to exit...''] @ [Read_stdin (next_char w)])
          (trace (snd (SimpleWebRTCClient_Run w)))
   \<and> suffix (says [''===================================='' @ [CHR 0x0A],
                    ''Press Enter to exit...''] @ [Read_stdin (next_char w)])
             (trace (snd (RealWebRTCClient_Run win32 g w)))
   \<and> filter is_read (trace (snd (stub_main win32 w))) =
       filter is_read (trace w) @ [Read_stdin (next_char w)]
   \<and> filter is_read (trace (snd (real_main win32 g w))) =
       filter is_read (trace w) @ [Read_stdin (next_char w)]
   \<and> stdin (snd (stub_main win32 w)) = drop 1 (stdin w)
   \<and> stdin (snd (real_main win32 g w)) = drop 1 (stdin w)
   \<and> fst (stub_main win32 w) = 0
   \<and> fst (real_main win32 g w) = 0"
proof -
  have stub_exit: "fst (stub_main win32 w) = 0" by (simp add: stub_main_frame)
  have real_exit: "fst (real_main win32 g w) = 0" by (simp add: real_main_frame)
  show ?thesis
    by (intro conjI)
       (fact stub_Run_ending real_Run_ending stub_main_reads real_main_reads
          stub_main_stdin real_main_stdin stub_exit real_exit)+
qed

text \<open>
  As stated, C7 has every run consume exactly one character. At end of input (an empty
  standard input) the only read obtains nothing and nothing is consumed.
\<close>

theorem nothing_consumed_at_end_of_input:
  "filter is_read (trace (snd (stub_main False (process_start [] 0)))) = [Read_stdin None]
   \<and> length (stdin (snd (stub_main False (process_start [] 0)))) =
       length (stdin (process_start [] 0))"
  by (simp add: stub_main_reads stub_main_stdin process_start_def next_char_def)

text \<open>
  Claim C8, as amended. Neither class has a data member, and no method depends on what
  was called before it: every operation returns the same value in any two worlds and
  changes the world only by appending the same events, all of them writes to standard
  output. Three methods do more than write to the console: \<open>Run\<close> appends its fixed
  output and then reads, which takes a character from standard input when there is one;
  on a Windows build the constructor calls \<open>WSAStartup\<close> (what it appends depends on
  the build and on the answer of the socket layer only) and the destructor calls
  \<open>WSACleanup\<close>.
\<close>

theorem methods_keep_no_state:
  "(SimpleWebRTCClient_CreatePeerConnection w =
      (fst (SimpleWebRTCClient_CreatePeerConnection w'),
       w\<lparr>trace := trace w @ events_of SimpleWebRTCClient_CreatePeerConnection\<rparr>)
    \<and> list_all is_stdout_write (events_of SimpleWebRTCClient_CreatePeerConnection))
   \<and> (SimpleWebRTCClient_AddVideoStream w =
      (fst (SimpleWebRTCClient_AddVideoStream w'),
       w\<lparr>trace := trace w @ events_of SimpleWebRTCClient_AddVideoStream\<rparr>)
    \<and> list_all is_stdout_write (events_of SimpleWebRTCClient_AddVideoStream))
   \<and> (SimpleWebRTCClient_AddAudioStream w =
      (fst (SimpleWebRTCClient_AddAudioStream w'),
       w\<lparr>trace := trace w @ events_of SimpleWebRTCClient_AddAudioStream\<rparr>)
    \<and> list_all is_stdout_write (events_of SimpleWebRTCClient_AddAudioStream))
   \<and> (SimpleWebRTCClient_CreateOffer w =
      (fst (SimpleWebRTCClient_CreateOffer w'),
       w\<lparr>trace := trace w @ events_of SimpleWebRTCClient_CreateOffer\<rparr>)
    \<and> list_all is_stdout_write (events_of SimpleWebRTCClient_CreateOffer))
   \<and> (SimpleWebRTCClient_StartVideoCapture w =
      (fst (SimpleWebRTCClient_StartVideoCapture w'),
       w\<lparr>trace := trace w @ events_of SimpleWebRTCClient_StartVideoCapture\<rparr>)
    \<and> list_all is_stdout_write (events_of SimpleWebRTCClient_StartVideoCapture))
   \<and> (SimpleWebRTCClient_RenderVideo w =
      (fst (SimpleWebRTCClient_RenderVideo w'),
       w\<lparr>trace := trace w @ events_of SimpleWebRTCClient_RenderVideo\<rparr>)
    \<and> list_all is_stdout_write (events_of SimpleWebRTCClient_RenderVideo))
   \<and> (SimpleWebRTCClient_HandleSignaling message w =
      (fst (SimpleWebRTCClient_HandleSignaling message w'),
       w\<lparr>trace := trace w @ events_of (SimpleWebRTCClient_HandleSignaling message)\<rparr>)
    \<and> list_all is_stdout_write (events_of (SimpleWebRTCClient_HandleSignaling message)))
   \<and> (RealWebRTCClient_InitializeWebRTC win32 g w =
      (fst (RealWebRTCClient_InitializeWebRTC win32 g w'),
       w\<lparr>trace := trace w @ events_of (RealWebRTCClient_InitializeWebRTC win32 g)\<rparr>)
    \<and> list_all is_stdout_write (events_of (RealWebRTCClient_InitializeWebRTC win32 g)))
   \<and> (RealWebRTCClient_CreatePeerConnection win32 g w =
      (fst (RealWebRTCClient_CreatePeerConnection win32 g w'),
       w\<lparr>trace := trace w @ events_of (RealWebRTCClient_CreatePeerConnection win32 g)\<rparr>)
    \<and> list_all is_stdout_write (events_of (RealWebRTCClient_CreatePeerConnection win32 g)))
   \<and> (RealWebRTCClient_AddVideoStream win32 g w =
      (fst (RealWebRTCClient_AddVideoStream win32 g w'),
       w\<lparr>trace := trace w @ events_of (RealWebRTCClient_AddVideoStream win32 g)\<rparr>)
    \<and> list_all is_stdout_write (events_of (RealWebRTCClient_AddVideoStream win32 g)))
   \<and> (RealWebRTCClient_AddAudioStream win32 g w =
      (fst (RealWebRTCClient_AddAudioStream win32 g w'),
       w\<lparr>trace := trace w @ events_of (RealWebRTCClient_AddAudioStream win32 g)\<rparr>)
    \<and> list_all is_stdout_write (events_of (RealWebRTCClient_AddAudioStream win32 g)))
   \<and> (RealWebRTCClient_CreateOffer win32 g w =
      (fst (RealWebRTCClient_CreateOffer win32 g w'),
       w\<lparr>trace := trace w @ events_of (RealWebRTCClient_CreateOffer win32 g)\<rparr>)
    \<and> list_all is_stdout_write (events_of (RealWebRTCClient_CreateOffer win32 g)))
   \<and> (RealWebRTCClient_StartVideoCapture win32 g w =
      (fst (RealWebRTCClient_StartVideoCapture win32 g w'),
       w\<lparr>trace := trace w @ events_of (RealWebRTCClient_StartVideoCapture win32 g)\<rparr>)
    \<and> list_all is_stdout_write (events_of (RealWebRTCClient_StartVideoCapture win32 g)))
   \<and> (RealWebRTCClient_RenderVideo w =
      (fst (RealWebRTCClient_RenderVideo w'),
       w\<lparr>trace := trace w @ events_of RealWebRTCClient_RenderVideo\<rparr>)
    \<and> list_all is_stdout_write (events_of RealWebRTCClient_RenderVideo))
   \<and> (SimpleWebRTCClient_Run w =
      (fst (SimpleWebRTCClient_Run w'),
       w\<lparr>trace := trace w @ butlast (events_of SimpleWebRTCClient_Run)
                  @ [Read_stdin (next_char w)],
         stdin := drop 1 (stdin w)\<rparr>)
    \<and> list_all is_stdout_write (butlast (events_of SimpleWebRTCClient_Run)))
   \<and> (RealWebRTCClient_Run win32 g w =
      (fst (RealWebRTCClient_Run win32 g w'),
       w\<lparr>trace := trace w @ butlast (events_of (RealWebRTCClient_Run win32 g))
                  @ [Read_stdin (next_char w)],
         stdin := drop 1 (stdin w)\<rparr>)
    \<and> list_all is_stdout_write (butlast (events_of (RealWebRTCClient_Run win32 g))))
   \<and> SimpleWebRTCClient_ctor win32 w =
      (Returned (), w\<lparr>trace := trace w @
         trace (snd (SimpleWebRTCClient_ctor win32 (process_start [] (wsa_result w))))\<rparr>)
   \<and> RealWebRTCClient_ctor win32 w =
      (Returned (), w\<lparr>trace := trace w @
         trace (snd (RealWebRTCClient_ctor win32 (process_start [] (wsa_result w))))\<rparr>)
   \<and> SimpleWebRTCClient_dtor win32 w =
      w\<lparr>trace := trace w @ (if win32 then [Call_WSACleanup] else [])\<rparr>
   \<and> RealWebRTCClient_dtor win32 w =
      w\<lparr>trace := trace w @ (if win32 then [Call_WSACleanup] else [])\<rparr>"
proof -
  obtain ls where stub: "\<forall>w. SimpleWebRTCClient_Run w =
      (Returned (), cin_get (w\<lparr>trace := trace w @ says ls\<rparr>))"
    using stub_Run_prints by blast
  obtain ls' where real: "\<forall>w. RealWebRTCClient_Run win32 g w =
      (Returned (), cin_get (w\<lparr>trace := trace w @ says ls'\<rparr>))"
    using real_Run_prints by blast
  show ?thesis
    by (intro conjI)
       (rule only_appends[OF stub_CreatePeerConnection_frame]
             only_appends[OF stub_AddVideoStream_frame]
             only_appends[OF stub_AddAudioStream_frame]
             only_appends[OF stub_CreateOffer_frame]
             only_appends[OF stub_StartVideoCapture_frame]
             only_appends[OF stub_RenderVideo_frame]
             only_appends[OF stub_HandleSignaling_frame]
             only_appends[OF real_InitializeWebRTC_frame]
             only_appends[OF real_CreatePeerConnection_frame]
             only_appends[OF real_AddVideoStream_frame]
             only_appends[OF real_AddAudioStream_frame]
             only_appends[OF real_CreateOffer_frame]
             only_appends[OF real_StartVideoCapture_frame]
             only_appends[OF real_RenderVideo_frame]
             Run_only_appends_and_reads[OF stub]
             Run_only_appends_and_reads[OF real]
             stub_ctor_only_appends real_ctor_only_appends dtor_frame)+
qed

text \<open>
  As stated, C8 has every method change nothing but the console output. \<open>Run\<close> also
  takes a character from standard input.
\<close>

theorem Run_consumes_input:
  "stdin (snd (SimpleWebRTCClient_Run (process_start ''x'' 0))) \<noteq>
   stdin (process_start ''x'' 0)"
  by (simp add: stub_Run_frame cin_get_frame process_start_def)

text \<open>
  Claim C9. In the real client \<open>InitializeWebRTC\<close>, \<open>CreatePeerConnection\<close>,
  \<open>AddVideoStream\<close> and \<open>AddAudioStream\<close> return true at every call, so \<open>Run\<close> never
  takes an early return: it writes nothing to standard error (neither of the two
  \<open>Failed to \<dots>\<close> messages), and it always ends with the last line of the closing
  banner, the prompt and the read.
\<close>

theorem real_Run_always_reaches_the_prompt:
  "fst (RealWebRTCClient_InitializeWebRTC win32 g w) = Returned True
   \<and> fst (RealWebRTCClient_CreatePeerConnection win32 g w) = Returned True
   \<and> fst (RealWebRTCClient_AddVideoStream win32 g w) = Returned True
   \<and> fst (RealWebRTCClient_AddAudioStream win32 g w) = Returned True
   \<and> fst (RealWebRTCClient_Run win32 g w) = Returned ()
   \<and> stderr_of (trace (snd (RealWebRTCClient_Run win32 g w))) = stderr_of (trace w)
   \<and> suffix (says [''===================================='' @ [CHR 0x0A],
                    ''Press Enter to exit...''] @ [Read_stdin (next_char w)])
             (trace (snd (RealWebRTCClient_Run win32 g w)))"
proof -
  have "stderr_of (trace (snd (RealWebRTCClient_Run win32 g w))) = stderr_of (trace w)"
    by (simp add: real_Run_frame cin_get_frame real_events stderr_of_append stderr_of_simps
          stderr_of_says)
  moreover have "fst (RealWebRTCClient_Run win32 g w) = Returned ()"
    by (simp add: real_Run_frame)
  ultimately show ?thesis
    using real_Run_ending[of w win32 g] by (simp add: real_frames)
qed

text \<open>
  Claim C10. \<open>HandleSignaling\<close> returns for every message: \<open>substr(0, 50)\<close> does not
  throw, and the method prints the heading, the first \<open>min 50 (length message)\<close>
  characters of the message and three dots. No run of the stub program calls it: its
  heading occurs nowhere in the standard output of a run.
\<close>

theorem HandleSignaling_is_total_and_never_called:
  "substr 0 50 message = Returned (take (min 50 (length message)) message)
   \<and> SimpleWebRTCClient_HandleSignaling message w =
       (Returned (), w\<lparr>trace := trace w @
          says [''Handling signaling message: ''
                @ take (min 50 (length message)) message @ ''...'']\<rparr>)
   \<and> \<not> sublist ''Handling signaling message: ''
         (stdout_of (trace (snd (stub_main win32 (process_start input rc)))))"
proof -
  have sub: "substr 0 50 message = Returned (take (min 50 (length message)) message)"
  proof -
    have "take (min 50 (length message)) message = take 50 message"
      by (cases "50 \<le> length message") (simp_all add: min_def)
    then show ?thesis by (simp add: substr_def)
  qed
  have call: "SimpleWebRTCClient_HandleSignaling message w =
       (Returned (), w\<lparr>trace := trace w @
          says [''Handling signaling message: ''
                @ take (min 50 (length message)) message @ ''...'']\<rparr>)"
    by (simp add: SimpleWebRTCClient_HandleSignaling_def sub cout_endl_trace)
  have absent: "\<not> sublist ''Handling signaling message: ''
         (stdout_of (trace (snd (stub_main win32 (process_start input rc)))))"
    by (simp add: stub_main_stdout process_start_def stdout_of_simps sublist_says
          sublist_Cons_right)
  show ?thesis by (intro conjI) (fact sub call absent)+
qed

end
